theory Spec2Isabelle
  imports Complex_Main "HOL-Library.Word"
begin

section \<open>Joint diagnostics of the NAOqi DCM driver (diagnostics.cpp)\<close>

subsection \<open>Values of type float\<close>

text \<open>
  The code never computes with its \<^verbatim>\<open>float\<close> values: it stores them, compares them
  with \<^verbatim>\<open><\<close> and selects one of two with \<^verbatim>\<open>std::max\<close> and \<^verbatim>\<open>std::min\<close>. No rounding
  takes place, so a float is modelled by the value it denotes: not-a-number, one of the two
  infinities, or a finite number (every finite float is a real; the two zeros compare equal
  and are one value here). \<open>float_less\<close> is the comparison \<^verbatim>\<open><\<close> of IEEE 754: it is false
  as soon as one side is not-a-number.
\<close>

datatype float = NaN | NegInf | Fin real | PosInf

fun float_less :: "float \<Rightarrow> float \<Rightarrow> bool" where
  "float_less NaN _ = False"
| "float_less _ NaN = False"
| "float_less NegInf NegInf = False"
| "float_less NegInf _ = True"
| "float_less (Fin a) (Fin b) = (a < b)"
| "float_less (Fin a) PosInf = True"
| "float_less (Fin a) NegInf = False"
| "float_less PosInf _ = False"

text \<open>
  \<^verbatim>\<open>a <= b\<close> and \<^verbatim>\<open>a >= b\<close> of IEEE 754; the code does not use them, the statements
  about thresholds and bounds do.
\<close>

definition float_le :: "float \<Rightarrow> float \<Rightarrow> bool" where
  "float_le a b = (float_less a b \<or> (a = b \<and> a \<noteq> NaN))"

definition float_ge :: "float \<Rightarrow> float \<Rightarrow> bool" where
  "float_ge a b = float_le b a"

text \<open>
  \<^verbatim>\<open>std::max(a, b)\<close> is \<^verbatim>\<open>(a < b) ? b : a\<close> and \<^verbatim>\<open>std::min(a, b)\<close> is
  \<^verbatim>\<open>(b < a) ? b : a\<close>.
\<close>

definition std_max :: "float \<Rightarrow> float \<Rightarrow> float" where
  "std_max a b = (if float_less a b then b else a)"

definition std_min :: "float \<Rightarrow> float \<Rightarrow> float" where
  "std_min a b = (if float_less b a then b else a)"

subsection \<open>Diagnostic messages\<close>

text \<open>
  \<^verbatim>\<open>diagnostic_msgs::DiagnosticStatus\<close> is a message type of ROS, declared outside this
  file: its level is a signed byte (\<^verbatim>\<open>int8_t\<close>) with the constants \<^verbatim>\<open>OK = 0\<close>,
  \<^verbatim>\<open>WARN = 1\<close> and \<^verbatim>\<open>ERROR = 2\<close>, and levels are compared as signed integers. The code
  assigns and compares levels and never computes with them. \<^verbatim>\<open>status.add(key, v)\<close> of
  \<^verbatim>\<open>DiagnosticStatusWrapper\<close> appends the pair of the key and the value \<open>v\<close>; the
  library stores \<open>v\<close> printed as text, the model keeps the float or the string passed.
  \<open>new_status\<close> is a status as its default constructor leaves it.
\<close>

type_synonym level_type = "8 word"

definition OK :: level_type where "OK = 0"
definition WARN :: level_type where "WARN = 1"
definition ERROR :: level_type where "ERROR = 2"

datatype key_value = FloatValue float | StringValue string

record DiagnosticStatus =
  level :: level_type
  name :: string
  message :: string
  hardware_id :: string
  key_values :: "(string \<times> key_value) list"

definition new_status :: DiagnosticStatus where
  "new_status = \<lparr>level = 0, name = [], message = [], hardware_id = [], key_values = []\<rparr>"

definition add :: "string \<Rightarrow> key_value \<Rightarrow> DiagnosticStatus \<Rightarrow> DiagnosticStatus" where
  "add k v status = status\<lparr>key_values := key_values status @ [(k, v)]\<rparr>"

text \<open>\<^verbatim>\<open>diagnostic_msgs::DiagnosticArray\<close>: the time stamp of the header and the field
  \<^verbatim>\<open>status\<close>, the list of the statuses.\<close>

record DiagnosticArray =
  stamp :: nat
  status_list :: "DiagnosticStatus list"

text \<open>\<^verbatim>\<open>std::max\<close> on two levels.\<close>

definition level_max :: "level_type \<Rightarrow> level_type \<Rightarrow> level_type" where
  "level_max a b = (if a <s b then b else a)"

subsection \<open>The Diagnostics object\<close>

text \<open>
  The members of the class that the code reads and writes (\<^verbatim>\<open>status_\<close> is \<open>m_status\<close>
  and so on: a name cannot end with an underscore here). The publisher and the memory
  proxy are outside the object; \<open>publish\<close> below takes them as arguments.
\<close>

record Diagnostics =
  m_joints_all_names :: "string list"
  m_temperature_warn_level :: float
  m_temperature_error_level :: float
  m_status :: DiagnosticStatus
  m_keys_tocheck :: "string list"

text \<open>The loop of the constructor: three \<^verbatim>\<open>push_back\<close> for every joint name.\<close>

fun push_keys :: "string list \<Rightarrow> string list \<Rightarrow> string list" where
  "push_keys [] keys = keys"
| "push_keys (it # rest) keys =
     push_keys rest
       (((keys
          @ [''Device/SubDeviceList/'' @ it @ ''/Temperature/Sensor/Value''])
          @ [''Device/SubDeviceList/'' @ it @ ''/Hardness/Actuator/Value''])
          @ [''Device/SubDeviceList/'' @ it @ ''/ElectricCurrent/Sensor/Value''])"

text \<open>
  The constructor. Whether the connection to the memory service succeeded does not
  change the fields modelled here: a failure is logged, and the calls of a later
  \<open>publish\<close> through the missing proxy raise.
\<close>

definition Diagnostics_new :: "string list \<Rightarrow> float \<Rightarrow> Diagnostics" where
  "Diagnostics_new joints_all_names temperature_error_level =
     \<lparr>m_joints_all_names = joints_all_names,
      m_temperature_warn_level = Fin 68,
      m_temperature_error_level = temperature_error_level,
      m_status = \<lparr>level = OK, name = ''naoqi_dcm_driver_joints:Status'', message = ''OK'',
                 hardware_id = ''robot'', key_values = []\<rparr>,
      m_keys_tocheck = push_keys joints_all_names []\<rparr>"

definition setMessageFromStatus :: "DiagnosticStatus \<Rightarrow> DiagnosticStatus" where
  "setMessageFromStatus status =
     (if level status = OK then status\<lparr>message := ''OK''\<rparr>
      else if level status = WARN then status\<lparr>message := ''WARN''\<rparr>
      else status\<lparr>message := ''ERROR''\<rparr>)"

text \<open>\<open>setAggregatedMessage\<close> updates the member \<^verbatim>\<open>status_\<close>, here its first argument.\<close>

definition setAggregatedMessage :: "DiagnosticStatus \<Rightarrow> DiagnosticStatus \<Rightarrow> DiagnosticStatus" where
  "setAggregatedMessage running status =
     (if level running <s level status
      then running\<lparr>level := level status, message := message status\<rparr>
      else running)"

definition getStatusMsg :: "Diagnostics \<Rightarrow> string" where
  "getStatusMsg this = message (m_status this)"

subsection \<open>Strings\<close>

text \<open>
  \<^verbatim>\<open>s.find(pat)\<close> of \<^verbatim>\<open>std::string\<close>: the first position at which \<open>pat\<close> occurs in
  \<open>s\<close>, \<open>None\<close> for \<^verbatim>\<open>npos\<close>.
\<close>

fun starts_with :: "string \<Rightarrow> string \<Rightarrow> bool" where
  "starts_with _ [] = True"
| "starts_with [] (c # cs) = False"
| "starts_with (x # xs) (c # cs) = (x = c \<and> starts_with xs cs)"

fun find_str :: "string \<Rightarrow> string \<Rightarrow> nat option" where
  "find_str [] pat = (if pat = [] then Some 0 else None)"
| "find_str (x # xs) pat =
     (if starts_with (x # xs) pat then Some 0 else map_option Suc (find_str xs pat))"

text \<open>The two bytes of the degree sign in UTF-8 and the letter C; the line feed of \<^verbatim>\<open>std::endl\<close>.\<close>

definition degrees_C :: string where
  "degrees_C = [CHR 0xC2, CHR 0xB0, CHR ''C'']"

definition endl :: string where
  "endl = [CHR 0x0A]"

subsection \<open>publish\<close>

text \<open>
  \<^verbatim>\<open>values[i]\<close> on a \<^verbatim>\<open>std::vector\<close> is defined only for \<open>i\<close> below its size; the
  model makes the other case a result of its own.
\<close>

datatype fault = OutOfRange

definition values_at :: "float list \<Rightarrow> nat \<Rightarrow> fault + float" where
  "values_at vs i = (if i < length vs then Inr (vs ! i) else Inl OutOfRange)"

text \<open>The local variables of \<open>publish\<close> that its loop changes, with the member \<^verbatim>\<open>status_\<close> (here \<open>running\<close>).\<close>

record publish_locals =
  val :: nat
  msg_status :: "DiagnosticStatus list"
  running :: DiagnosticStatus
  max_level :: level_type
  maxTemperature :: float
  maxStiffness :: float
  minStiffness :: float
  minStiffnessWoHands :: float
  maxCurrent :: float
  minCurrent :: float
  hotJointsSS :: string

text \<open>
  The status of one joint, as the loop body builds it from the three values read
  (the name, the hardware id, the three pairs, then level and message).
\<close>

definition joint_status :: "float \<Rightarrow> float \<Rightarrow> string \<Rightarrow> float \<Rightarrow> float \<Rightarrow> float \<Rightarrow> DiagnosticStatus" where
  "joint_status warn_level error_level it_name temperature stiffness current =
     (let status = new_status\<lparr>name := ''naoqi_dcm_driver_joints'' @ it_name\<rparr>;
          status = status\<lparr>hardware_id := it_name\<rparr>;
          status = add ''Temperature'' (FloatValue temperature) status;
          status = add ''Stiffness'' (FloatValue stiffness) status;
          status = add ''ElectricCurrent'' (FloatValue current) status
      in if float_less temperature warn_level
         then status\<lparr>level := OK, message := ''OK''\<rparr>
         else if float_less temperature error_level
         then status\<lparr>level := WARN, message := ''Hot''\<rparr>
         else status\<lparr>level := ERROR, message := ''HIGH JOINT TEMPERATURE : '' @ it_name\<rparr>)"

text \<open>
  One turn of the loop over the joint names. \<open>show_float\<close> is the text that
  \<^verbatim>\<open>operator<<\<close> of the standard library prints for a float.
\<close>

definition loop_body ::
  "(float \<Rightarrow> string) \<Rightarrow> float \<Rightarrow> float \<Rightarrow> float list \<Rightarrow> string \<Rightarrow> publish_locals
     \<Rightarrow> fault + publish_locals" where
  "loop_body show_float warn_level error_level vs it_name l =
     (case values_at vs (val l) of Inl e \<Rightarrow> Inl e | Inr temperature \<Rightarrow>
     (case values_at vs (val l + 1) of Inl e \<Rightarrow> Inl e | Inr stiffness \<Rightarrow>
     (case values_at vs (val l + 2) of Inl e \<Rightarrow> Inl e | Inr current \<Rightarrow>
        (let status = joint_status warn_level error_level it_name temperature stiffness current
         in Inr (l\<lparr>val := val l + 3,
                   msg_status := msg_status l @ [status],
                   running := setAggregatedMessage (running l) status,
                   max_level := level_max (max_level l) (level status),
                   maxTemperature := std_max (maxTemperature l) temperature,
                   maxStiffness := std_max (maxStiffness l) stiffness,
                   minStiffness := std_min (minStiffness l) stiffness,
                   minStiffnessWoHands :=
                     (if find_str it_name ''Hand'' = None
                      then std_min (minStiffnessWoHands l) stiffness
                      else minStiffnessWoHands l),
                   maxCurrent := std_max (maxCurrent l) current,
                   minCurrent := std_min (minCurrent l) current,
                   hotJointsSS :=
                     (if WARN \<le>s level status
                      then hotJointsSS l @ endl @ it_name @ '': '' @ show_float temperature
                             @ degrees_C
                      else hotJointsSS l)\<rparr>)))))"

fun joints_loop ::
  "(float \<Rightarrow> string) \<Rightarrow> float \<Rightarrow> float \<Rightarrow> float list \<Rightarrow> string list \<Rightarrow> publish_locals
     \<Rightarrow> fault + publish_locals" where
  "joints_loop show_float warn_level error_level vs [] l = Inr l"
| "joints_loop show_float warn_level error_level vs (it_name # rest) l =
     (case loop_body show_float warn_level error_level vs it_name l of
        Inl e \<Rightarrow> Inl e
      | Inr l' \<Rightarrow> joints_loop show_float warn_level error_level vs rest l')"

text \<open>The status that \<open>publish\<close> appends after the loop.\<close>

definition aggregated_status :: "publish_locals \<Rightarrow> DiagnosticStatus" where
  "aggregated_status l =
     (let status = new_status\<lparr>name := ''naoqi_dcm_driver_joints:Status''\<rparr>;
          status = status\<lparr>hardware_id := ''joints''\<rparr>;
          status = status\<lparr>level := max_level l\<rparr>;
          status = setMessageFromStatus status;
          status = add ''Highest Temperature'' (FloatValue (maxTemperature l)) status;
          status = add ''Highest Stiffness'' (FloatValue (maxStiffness l)) status;
          status = add ''Lowest Stiffness'' (FloatValue (minStiffness l)) status;
          status = add ''Lowest Stiffness without Hands''
                     (FloatValue (minStiffnessWoHands l)) status;
          status = add ''Highest Electric Current'' (FloatValue (maxCurrent l)) status;
          status = add ''Lowest Electric current'' (FloatValue (minCurrent l)) status;
          status = add ''Hot Joints'' (StringValue (hotJointsSS l)) status
      in status)"

text \<open>The locals as \<open>publish\<close> initialises them, the member \<^verbatim>\<open>status_\<close> reset.\<close>

definition initial_locals :: "DiagnosticStatus \<Rightarrow> publish_locals" where
  "initial_locals st =
     \<lparr>val = 0,
      msg_status = [],
      running = st\<lparr>level := OK, message := ''OK''\<rparr>,
      max_level = OK,
      maxTemperature = Fin 0,
      maxStiffness = Fin 0,
      minStiffness = Fin 1,
      minStiffnessWoHands = Fin 1,
      maxCurrent = Fin 0,
      minCurrent = Fin 10,
      hotJointsSS = []\<rparr>"

text \<open>
  \<open>publish\<close>. Its surroundings are arguments: \<open>show_float\<close> as above; \<open>getListData\<close>
  is the call of the memory proxy followed by the conversion to a vector of floats,
  \<open>Inl\<close> the exception either of them raises; \<open>now\<close> is the clock; \<open>pub\<close> is the
  list of the messages published so far. The result is the value returned, the object
  and the messages published, or the fault of a read outside the vector.
\<close>

definition publish ::
  "(float \<Rightarrow> string) \<Rightarrow> (string list \<Rightarrow> string + float list) \<Rightarrow> nat \<Rightarrow> Diagnostics
     \<Rightarrow> DiagnosticArray list \<Rightarrow> fault + (bool \<times> Diagnostics \<times> DiagnosticArray list)" where
  "publish show_float getListData now this pub =
     (let l = initial_locals (m_status this)
      in case getListData (m_keys_tocheck this) of
           Inl e \<Rightarrow> Inr (False, this\<lparr>m_status := running l\<rparr>, pub)
         | Inr vs \<Rightarrow>
             (case joints_loop show_float (m_temperature_warn_level this)
                     (m_temperature_error_level this) vs (m_joints_all_names this) l of
                Inl f \<Rightarrow> Inl f
              | Inr l' \<Rightarrow>
                  (let msg = \<lparr>stamp = now, status_list = msg_status l' @ [aggregated_status l']\<rparr>;
                       pub' = pub @ [msg];
                       this' = this\<lparr>m_status := running l'\<rparr>
                   in if ERROR \<le>s level (running l') then Inr (False, this', pub')
                      else Inr (True, this', pub'))))"

section \<open>The loop of publish\<close>

lemma loop_body_Inr_iff:
  "(\<exists>l'. loop_body sf w e vs n l = Inr l') = (val l + 3 \<le> length vs)"
  by (auto simp: loop_body_def values_at_def Let_def split: sum.splits)

lemma loop_body_Inl:
  "\<not> val l + 3 \<le> length vs \<Longrightarrow> loop_body sf w e vs n l = Inl OutOfRange"
  by (auto simp: loop_body_def values_at_def Let_def split: sum.splits)

lemma loop_body_fields:
  assumes "loop_body sf w e vs n l = Inr l'"
  shows "val l + 3 \<le> length vs"
    and "val l' = val l + 3"
    and "msg_status l' = msg_status l @ [joint_status w e n (vs ! val l) (vs ! (val l + 1)) (vs ! (val l + 2))]"
    and "running l' = setAggregatedMessage (running l) (joint_status w e n (vs ! val l) (vs ! (val l + 1)) (vs ! (val l + 2)))"
    and "max_level l' = level_max (max_level l) (level (joint_status w e n (vs ! val l) (vs ! (val l + 1)) (vs ! (val l + 2))))"
    and "maxTemperature l' = std_max (maxTemperature l) (vs ! val l)"
    and "maxStiffness l' = std_max (maxStiffness l) (vs ! (val l + 1))"
    and "minStiffness l' = std_min (minStiffness l) (vs ! (val l + 1))"
    and "minStiffnessWoHands l' = (if find_str n ''Hand'' = None then std_min (minStiffnessWoHands l) (vs ! (val l + 1)) else minStiffnessWoHands l)"
    and "maxCurrent l' = std_max (maxCurrent l) (vs ! (val l + 2))"
    and "minCurrent l' = std_min (minCurrent l) (vs ! (val l + 2))"
  using assms
  by (auto simp: loop_body_def values_at_def Let_def split: sum.splits if_splits)

lemma joints_loop_cases:
  assumes "joints_loop sf w e vs names l = Inr l'"
    and "\<And>l. P [] l l"
    and "\<And>n ns l l1 l'. loop_body sf w e vs n l = Inr l1 \<Longrightarrow>
           joints_loop sf w e vs ns l1 = Inr l' \<Longrightarrow> P ns l1 l' \<Longrightarrow> P (n # ns) l l'"
  shows "P names l l'"
  using assms(1)
proof (induction names arbitrary: l)
  case Nil
  then show ?case using assms(2) by simp
next
  case (Cons n ns)
  then obtain l1 where b: "loop_body sf w e vs n l = Inr l1"
    and r: "joints_loop sf w e vs ns l1 = Inr l'"
    by (auto split: sum.splits)
  from assms(3) [OF b r Cons.IH [OF r]] show ?case .
qed

lemma joints_loop_Inr_iff:
  "(\<exists>l'. joints_loop sf w e vs names l = Inr l') =
     (names = [] \<or> val l + 3 * length names \<le> length vs)"
proof (induction names arbitrary: l)
  case Nil
  then show ?case by simp
next
  case (Cons n ns)
  show ?case
  proof (cases "val l + 3 \<le> length vs")
    case True
    then obtain l1 where b: "loop_body sf w e vs n l = Inr l1"
      using loop_body_Inr_iff [of sf w e vs n l] by blast
    have "val l1 = val l + 3" using loop_body_fields(2) [OF b] .
    with Cons.IH [of l1] b True show ?thesis by auto
  next
    case False
    then show ?thesis by (simp add: loop_body_Inl)
  qed
qed

lemma joints_loop_fault:
  "(joints_loop sf w e vs names l = Inl OutOfRange) =
     (names \<noteq> [] \<and> length vs < val l + 3 * length names)"
proof -
  have "(joints_loop sf w e vs names l = Inl OutOfRange) = (\<not> (\<exists>l'. joints_loop sf w e vs names l = Inr l'))"
    by (cases "joints_loop sf w e vs names l") (auto intro: fault.exhaust)
  then show ?thesis by (auto simp add: joints_loop_Inr_iff not_le)
qed

lemma joints_loop_val:
  "joints_loop sf w e vs names l = Inr l' \<Longrightarrow> val l' = val l + 3 * length names"
  by (erule joints_loop_cases) (simp_all add: loop_body_fields(2))

lemma upt_Suc_map: "map f [0..<Suc k] = f 0 # map (\<lambda>i. f (Suc i)) [0..<k]"
  by (simp add: map_upt_Suc del: upt_Suc)

lemma joints_loop_msg_status:
  "joints_loop sf w e vs names l = Inr l' \<Longrightarrow>
     msg_status l' = msg_status l @
       map (\<lambda>i. joint_status w e (names ! i) (vs ! (val l + 3 * i)) (vs ! (val l + 3 * i + 1))
                  (vs ! (val l + 3 * i + 2))) [0..<length names]"
  by (erule joints_loop_cases)
     (simp_all add: loop_body_fields(2,3) upt_Suc_map add.assoc add.left_commute del: upt_Suc)

subsection \<open>Levels\<close>

lemma level_max_ge1: "a \<le>s level_max a b"
  by (simp add: level_max_def signed.less_imp_le)

lemma level_max_ge2: "b \<le>s level_max a b"
  by (simp add: level_max_def signed.not_less)

lemma level_max_cases: "level_max a b = a \<or> level_max a b = b"
  by (simp add: level_max_def)

lemma level_setAggregatedMessage:
  "level (setAggregatedMessage r s) = level_max (level r) (level s)"
  by (simp add: setAggregatedMessage_def level_max_def)

lemma foldl_level_max_ge: "m \<le>s foldl level_max m ls"
proof (induction ls arbitrary: m)
  case Nil
  show ?case by simp
next
  case (Cons x xs)
  have "m \<le>s level_max m x" by (rule level_max_ge1)
  also have "level_max m x \<le>s foldl level_max (level_max m x) xs" by (rule Cons.IH)
  finally show ?case by simp
qed

lemma foldl_level_max_upper: "x \<in> set ls \<Longrightarrow> x \<le>s foldl level_max m ls"
proof (induction ls arbitrary: m)
  case Nil
  then show ?case by simp
next
  case (Cons y ys)
  show ?case
  proof (cases "x = y")
    case True
    have "x \<le>s level_max m x" by (rule level_max_ge2)
    also have "level_max m x \<le>s foldl level_max (level_max m x) ys" by (rule foldl_level_max_ge)
    finally show ?thesis using True by simp
  next
    case False
    with Cons.prems have "x \<in> set ys" by simp
    from Cons.IH [OF this] show ?thesis by simp
  qed
qed

lemma foldl_level_max_attained: "foldl level_max m ls = m \<or> foldl level_max m ls \<in> set ls"
proof (induction ls arbitrary: m)
  case Nil
  show ?case by simp
next
  case (Cons y ys)
  from Cons.IH [of "level_max m y"] level_max_cases [of m y] show ?case by auto
qed

lemma level_foldl_setAggregatedMessage:
  "level (foldl setAggregatedMessage r sts) = foldl level_max (level r) (map level sts)"
  by (induction sts arbitrary: r) (simp_all add: level_setAggregatedMessage)

lemma joints_loop_extends:
  "joints_loop sf w e vs names l = Inr l' \<Longrightarrow> \<exists>sts. msg_status l' = msg_status l @ sts"
  by (erule joints_loop_cases) (auto simp: loop_body_fields(3))

lemma joints_loop_running:
  "joints_loop sf w e vs names l = Inr l' \<Longrightarrow>
     running l' = foldl setAggregatedMessage (running l) (drop (length (msg_status l)) (msg_status l'))"
proof (erule joints_loop_cases)
  fix l :: publish_locals show "running l = foldl setAggregatedMessage (running l) (drop (length (msg_status l)) (msg_status l))"
    by simp
next
  fix n ns and l l1 l' :: publish_locals
  assume b: "loop_body sf w e vs n l = Inr l1"
    and r: "joints_loop sf w e vs ns l1 = Inr l'"
    and ih: "running l' = foldl setAggregatedMessage (running l1) (drop (length (msg_status l1)) (msg_status l'))"
  from joints_loop_extends [OF r] obtain sts where "msg_status l' = msg_status l1 @ sts" ..
  with ih loop_body_fields(3,4) [OF b]
  show "running l' = foldl setAggregatedMessage (running l) (drop (length (msg_status l)) (msg_status l'))"
    by simp
qed

lemma joints_loop_max_level:
  "joints_loop sf w e vs names l = Inr l' \<Longrightarrow>
     max_level l' = foldl level_max (max_level l) (map level (drop (length (msg_status l)) (msg_status l')))"
proof (erule joints_loop_cases)
  fix l :: publish_locals show "max_level l = foldl level_max (max_level l) (map level (drop (length (msg_status l)) (msg_status l)))"
    by simp
next
  fix n ns and l l1 l' :: publish_locals
  assume b: "loop_body sf w e vs n l = Inr l1"
    and r: "joints_loop sf w e vs ns l1 = Inr l'"
    and ih: "max_level l' = foldl level_max (max_level l1) (map level (drop (length (msg_status l1)) (msg_status l')))"
  from joints_loop_extends [OF r] obtain sts where "msg_status l' = msg_status l1 @ sts" ..
  with ih loop_body_fields(3,5) [OF b]
  show "max_level l' = foldl level_max (max_level l) (map level (drop (length (msg_status l)) (msg_status l')))"
    by simp
qed

subsection \<open>The status of a joint\<close>

lemma joint_status_level:
  "level (joint_status w e n t s c) =
     (if float_less t w then OK else if float_less t e then WARN else ERROR)"
  by (simp add: joint_status_def Let_def add_def new_status_def)

lemma joint_status_message:
  "message (joint_status w e n t s c) =
     (if float_less t w then ''OK'' else if float_less t e then ''Hot''
      else ''HIGH JOINT TEMPERATURE : '' @ n)"
  by (simp add: joint_status_def Let_def add_def new_status_def)

lemma joint_status_key_values:
  "key_values (joint_status w e n t s c) =
     [(''Temperature'', FloatValue t), (''Stiffness'', FloatValue s), (''ElectricCurrent'', FloatValue c)]"
  by (simp add: joint_status_def Let_def add_def new_status_def)

lemma joint_status_ids:
  "name (joint_status w e n t s c) = ''naoqi_dcm_driver_joints'' @ n"
  "hardware_id (joint_status w e n t s c) = n"
  by (simp_all add: joint_status_def Let_def add_def new_status_def)

lemma OK_le_levels: "OK \<le>s OK" "OK \<le>s WARN" "OK \<le>s ERROR" "WARN \<le>s ERROR" "\<not> ERROR \<le>s WARN"
  "\<not> ERROR \<le>s OK" "\<not> WARN \<le>s OK" "OK \<noteq> WARN" "OK \<noteq> ERROR" "WARN \<noteq> ERROR"
  by (simp_all add: OK_def WARN_def ERROR_def word_sle_eq)

subsection \<open>A cycle of publish\<close>

lemma publish_read_failed:
  "getListData (m_keys_tocheck this) = Inl x \<Longrightarrow>
     publish sf getListData now this pub =
       Inr (False, this\<lparr>m_status := (m_status this)\<lparr>level := OK, message := ''OK''\<rparr>\<rparr>, pub)"
  by (simp add: publish_def initial_locals_def)

lemma publish_completes:
  assumes "publish sf getListData now this pub = Inr (r, this', pub')"
    and "getListData (m_keys_tocheck this) = Inr vs"
  obtains l' where
    "joints_loop sf (m_temperature_warn_level this) (m_temperature_error_level this) vs
       (m_joints_all_names this) (initial_locals (m_status this)) = Inr l'"
    and "pub' = pub @ [\<lparr>stamp = now, status_list = msg_status l' @ [aggregated_status l']\<rparr>]"
    and "this' = this\<lparr>m_status := running l'\<rparr>"
    and "r = (\<not> ERROR \<le>s level (running l'))"
  using assms
  by (auto simp: publish_def Let_def split: sum.splits if_splits)

lemma publish_fault_iff:
  assumes "getListData (m_keys_tocheck this) = Inr vs"
  shows "(publish sf getListData now this pub = Inl OutOfRange) =
           (length vs < 3 * length (m_joints_all_names this))"
proof -
  have "(publish sf getListData now this pub = Inl OutOfRange) =
        (joints_loop sf (m_temperature_warn_level this) (m_temperature_error_level this) vs
           (m_joints_all_names this) (initial_locals (m_status this)) = Inl OutOfRange)"
    using assms by (auto simp: publish_def Let_def split: sum.splits if_splits intro: fault.exhaust)
  also have "\<dots> = (m_joints_all_names this \<noteq> [] \<and> length vs < 3 * length (m_joints_all_names this))"
    by (simp add: joints_loop_fault initial_locals_def)
  also have "\<dots> = (length vs < 3 * length (m_joints_all_names this))"
    by auto
  finally show ?thesis .
qed

lemma initial_locals_fields:
  "val (initial_locals st) = 0"
  "msg_status (initial_locals st) = []"
  "level (running (initial_locals st)) = OK"
  "message (running (initial_locals st)) = ''OK''"
  "max_level (initial_locals st) = OK"
  "maxTemperature (initial_locals st) = Fin 0"
  "maxStiffness (initial_locals st) = Fin 0"
  "minStiffness (initial_locals st) = Fin 1"
  "minStiffnessWoHands (initial_locals st) = Fin 1"
  "maxCurrent (initial_locals st) = Fin 0"
  "minCurrent (initial_locals st) = Fin 10"
  "hotJointsSS (initial_locals st) = []"
  by (simp_all add: initial_locals_def)

lemma aggregated_status_fields:
  "level (aggregated_status l) = max_level l"
  "message (aggregated_status l) =
     (if max_level l = OK then ''OK'' else if max_level l = WARN then ''WARN'' else ''ERROR'')"
  "name (aggregated_status l) = ''naoqi_dcm_driver_joints:Status''"
  "hardware_id (aggregated_status l) = ''joints''"
  "key_values (aggregated_status l) =
     [(''Highest Temperature'', FloatValue (maxTemperature l)),
      (''Highest Stiffness'', FloatValue (maxStiffness l)),
      (''Lowest Stiffness'', FloatValue (minStiffness l)),
      (''Lowest Stiffness without Hands'', FloatValue (minStiffnessWoHands l)),
      (''Highest Electric Current'', FloatValue (maxCurrent l)),
      (''Lowest Electric current'', FloatValue (minCurrent l)),
      (''Hot Joints'', StringValue (hotJointsSS l))]"
  by (simp_all add: aggregated_status_def Let_def setMessageFromStatus_def add_def new_status_def)

text \<open>What a completed cycle publishes and leaves behind.\<close>

lemma publish_result:
  assumes "publish sf getListData now this pub = Inr (r, this', pub')"
    and "getListData (m_keys_tocheck this) = Inr vs"
  obtains l' where
    "joints_loop sf (m_temperature_warn_level this) (m_temperature_error_level this) vs
       (m_joints_all_names this) (initial_locals (m_status this)) = Inr l'"
    and "pub' = pub @ [\<lparr>stamp = now, status_list = msg_status l' @ [aggregated_status l']\<rparr>]"
    and "this' = this\<lparr>m_status := running l'\<rparr>"
    and "r = (\<not> ERROR \<le>s level (running l'))"
    and "msg_status l' =
           map (\<lambda>i. joint_status (m_temperature_warn_level this) (m_temperature_error_level this)
                      (m_joints_all_names this ! i) (vs ! (3 * i)) (vs ! (3 * i + 1)) (vs ! (3 * i + 2)))
               [0..<length (m_joints_all_names this)]"
    and "running l' = foldl setAggregatedMessage (running (initial_locals (m_status this))) (msg_status l')"
    and "max_level l' = foldl level_max OK (map level (msg_status l'))"
    and "3 * length (m_joints_all_names this) \<le> length vs"
proof -
  from publish_completes [OF assms] obtain l' where
    loop: "joints_loop sf (m_temperature_warn_level this) (m_temperature_error_level this) vs
       (m_joints_all_names this) (initial_locals (m_status this)) = Inr l'"
    and rest: "pub' = pub @ [\<lparr>stamp = now, status_list = msg_status l' @ [aggregated_status l']\<rparr>]"
      "this' = this\<lparr>m_status := running l'\<rparr>" "r = (\<not> ERROR \<le>s level (running l'))"
    by blast
  have m: "msg_status l' =
           map (\<lambda>i. joint_status (m_temperature_warn_level this) (m_temperature_error_level this)
                      (m_joints_all_names this ! i) (vs ! (3 * i)) (vs ! (3 * i + 1)) (vs ! (3 * i + 2)))
               [0..<length (m_joints_all_names this)]"
    using joints_loop_msg_status [OF loop] by (simp add: initial_locals_fields)
  have ru: "running l' = foldl setAggregatedMessage (running (initial_locals (m_status this))) (msg_status l')"
    using joints_loop_running [OF loop] by (simp add: initial_locals_fields)
  have ml: "max_level l' = foldl level_max OK (map level (msg_status l'))"
    using joints_loop_max_level [OF loop] by (simp add: initial_locals_fields)
  have "\<exists>l'. joints_loop sf (m_temperature_warn_level this) (m_temperature_error_level this) vs
       (m_joints_all_names this) (initial_locals (m_status this)) = Inr l'"
    using loop by blast
  then have len: "3 * length (m_joints_all_names this) \<le> length vs"
    unfolding joints_loop_Inr_iff by (auto simp: initial_locals_fields)
  from that [OF loop rest m ru ml len] show thesis .
qed

text \<open>The comparisons of the three levels, evaluated.\<close>

lemma level_numerals:
  "((0::8 word) <s 0) = False" "((0::8 word) <s 1) = True" "((0::8 word) <s 2) = True"
  "((1::8 word) <s 0) = False" "((1::8 word) <s 1) = False" "((1::8 word) <s 2) = True"
  "((2::8 word) <s 0) = False" "((2::8 word) <s 1) = False" "((2::8 word) <s 2) = False"
  "((0::8 word) \<le>s 0) = True" "((0::8 word) \<le>s 1) = True" "((0::8 word) \<le>s 2) = True"
  "((1::8 word) \<le>s 0) = False" "((1::8 word) \<le>s 1) = True" "((1::8 word) \<le>s 2) = True"
  "((2::8 word) \<le>s 0) = False" "((2::8 word) \<le>s 1) = False" "((2::8 word) \<le>s 2) = True"
  by (simp_all add: word_sless_alt word_sle_eq)

text \<open>The definitions to unfold when a cycle is run on given values.\<close>

lemmas run_defs =
  publish_def Diagnostics_new_def initial_locals_def loop_body_def values_at_def
  joint_status_def Let_def new_status_def add_def setAggregatedMessage_def OK_def WARN_def
  ERROR_def level_max_def std_max_def std_min_def aggregated_status_def
  setMessageFromStatus_def endl_def degrees_C_def getStatusMsg_def float_le_def float_ge_def
  level_numerals

text \<open>A cycle whose read returns enough values completes.\<close>

lemma publish_cycle:
  assumes "getListData (m_keys_tocheck this) = Inr vs"
    and "3 * length (m_joints_all_names this) \<le> length vs"
  obtains l' where
    "publish sf getListData now this pub =
       Inr (\<not> ERROR \<le>s level (running l'), this\<lparr>m_status := running l'\<rparr>,
            pub @ [\<lparr>stamp = now, status_list = msg_status l' @ [aggregated_status l']\<rparr>])"
    and "joints_loop sf (m_temperature_warn_level this) (m_temperature_error_level this) vs
       (m_joints_all_names this) (initial_locals (m_status this)) = Inr l'"
    and "msg_status l' =
           map (\<lambda>i. joint_status (m_temperature_warn_level this) (m_temperature_error_level this)
                      (m_joints_all_names this ! i) (vs ! (3 * i)) (vs ! (3 * i + 1)) (vs ! (3 * i + 2)))
               [0..<length (m_joints_all_names this)]"
    and "running l' = foldl setAggregatedMessage (running (initial_locals (m_status this))) (msg_status l')"
    and "max_level l' = foldl level_max OK (map level (msg_status l'))"
proof -
  have "\<exists>l'. joints_loop sf (m_temperature_warn_level this) (m_temperature_error_level this) vs
       (m_joints_all_names this) (initial_locals (m_status this)) = Inr l'"
    unfolding joints_loop_Inr_iff using assms(2) by (simp add: initial_locals_fields)
  then obtain l' where loop: "joints_loop sf (m_temperature_warn_level this)
       (m_temperature_error_level this) vs
       (m_joints_all_names this) (initial_locals (m_status this)) = Inr l'" ..
  have p: "publish sf getListData now this pub =
       Inr (\<not> ERROR \<le>s level (running l'), this\<lparr>m_status := running l'\<rparr>,
            pub @ [\<lparr>stamp = now, status_list = msg_status l' @ [aggregated_status l']\<rparr>])"
    using assms(1) loop by (simp add: publish_def Let_def)
  from publish_result [OF p assms(1)] loop that p show thesis by auto
qed

subsection \<open>The three levels and their maximum\<close>

lemma joint_status_level_cases:
  "level (joint_status w e n t s c) = OK \<or> level (joint_status w e n t s c) = WARN
     \<or> level (joint_status w e n t s c) = ERROR"
  by (simp add: joint_status_level)

lemma level_le_WARN_iff: "lv = OK \<or> lv = WARN \<or> lv = ERROR \<Longrightarrow> (lv \<le>s WARN) = (lv \<noteq> ERROR)"
  using OK_le_levels by auto

lemma OK_le_level: "lv = OK \<or> lv = WARN \<or> lv = ERROR \<Longrightarrow> OK \<le>s lv"
  using OK_le_levels by auto

text \<open>The maximum of levels that are all one of the three constants, from \<open>OK\<close>.\<close>

lemma foldl_level_max_three:
  assumes "\<forall>lv\<in>set ls. lv = OK \<or> lv = WARN \<or> lv = ERROR"
  shows "(\<forall>lv\<in>set ls. lv \<le>s foldl level_max OK ls)"
    and "ls \<noteq> [] \<Longrightarrow> foldl level_max OK ls \<in> set ls"
    and "ls = [] \<Longrightarrow> foldl level_max OK ls = OK"
    and "(ERROR \<le>s foldl level_max OK ls) = (\<exists>lv\<in>set ls. lv = ERROR)"
proof -
  show up: "\<forall>lv\<in>set ls. lv \<le>s foldl level_max OK ls"
    by (simp add: foldl_level_max_upper)
  show att: "foldl level_max OK ls \<in> set ls" if ne: "ls \<noteq> []"
  proof (cases "foldl level_max OK ls = OK")
    case True
    from ne obtain x where x: "x \<in> set ls" by (cases ls) auto
    with up True have "x \<le>s OK" by auto
    moreover from assms x have "OK \<le>s x" by (auto intro: OK_le_level)
    ultimately have "x = OK" by simp
    with x True show ?thesis by simp
  next
    case False
    with foldl_level_max_attained [of OK ls] show ?thesis by simp
  qed
  show "foldl level_max OK ls = OK" if "ls = []" using that by simp
  show "(ERROR \<le>s foldl level_max OK ls) = (\<exists>lv\<in>set ls. lv = ERROR)"
  proof
    assume e: "ERROR \<le>s foldl level_max OK ls"
    then have "foldl level_max OK ls \<noteq> OK" using OK_le_levels by auto
    with foldl_level_max_attained [of OK ls] have m: "foldl level_max OK ls \<in> set ls" by simp
    with assms have "foldl level_max OK ls = OK \<or> foldl level_max OK ls = WARN
      \<or> foldl level_max OK ls = ERROR" by blast
    with e OK_le_levels have "foldl level_max OK ls = ERROR" by auto
    with m show "\<exists>lv\<in>set ls. lv = ERROR" by auto
  next
    assume "\<exists>lv\<in>set ls. lv = ERROR"
    then have "ERROR \<in> set ls" by auto
    then show "ERROR \<le>s foldl level_max OK ls" by (rule foldl_level_max_upper)
  qed
qed

subsection \<open>The loop, split in two\<close>

lemma joints_loop_append:
  "joints_loop sf w e vs (xs @ ys) l =
     (case joints_loop sf w e vs xs l of Inl f \<Rightarrow> Inl f | Inr l1 \<Rightarrow> joints_loop sf w e vs ys l1)"
  by (induction xs arbitrary: l) (simp_all split: sum.splits)

lemma joints_loop_running_level:
  assumes "joints_loop sf w e vs names l = Inr l'"
  shows "level (running l) \<le>s level (running l')"
proof -
  have "level (running l') =
      foldl level_max (level (running l)) (map level (drop (length (msg_status l)) (msg_status l')))"
    using joints_loop_running [OF assms] by (simp add: level_foldl_setAggregatedMessage)
  then show ?thesis by (simp add: foldl_level_max_ge)
qed

subsection \<open>The object after construction\<close>

lemma Diagnostics_new_fields:
  "m_joints_all_names ((Diagnostics_new names E)\<lparr>m_status := s\<rparr>) = names"
  "m_temperature_warn_level ((Diagnostics_new names E)\<lparr>m_status := s\<rparr>) = Fin 68"
  "m_temperature_error_level ((Diagnostics_new names E)\<lparr>m_status := s\<rparr>) = E"
  "m_keys_tocheck ((Diagnostics_new names E)\<lparr>m_status := s\<rparr>) = push_keys names []"
  "m_status ((Diagnostics_new names E)\<lparr>m_status := s\<rparr>) = s"
  by (simp_all add: Diagnostics_new_def)

text \<open>The statuses of the joints in the message of a cycle that completes.\<close>

lemma publish_joint_statuses:
  assumes "getListData (m_keys_tocheck this) = Inr vs"
    and "3 * length (m_joints_all_names this) \<le> length vs"
  shows "\<exists>r this' msg. publish sf getListData now this pub = Inr (r, this', pub @ [msg])
     \<and> length (status_list msg) = length (m_joints_all_names this) + 1
     \<and> (\<forall>i<length (m_joints_all_names this).
           status_list msg ! i =
             joint_status (m_temperature_warn_level this) (m_temperature_error_level this)
               (m_joints_all_names this ! i) (vs ! (3 * i)) (vs ! (3 * i + 1)) (vs ! (3 * i + 2)))"
proof -
  from publish_cycle [where getListData = getListData and this = this and vs = vs and sf = sf
      and now = now and pub = pub, OF assms] obtain l' where
    p: "publish sf getListData now this pub =
       Inr (\<not> ERROR \<le>s level (running l'), this\<lparr>m_status := running l'\<rparr>,
            pub @ [\<lparr>stamp = now, status_list = msg_status l' @ [aggregated_status l']\<rparr>])"
    and m: "msg_status l' =
           map (\<lambda>i. joint_status (m_temperature_warn_level this) (m_temperature_error_level this)
                      (m_joints_all_names this ! i) (vs ! (3 * i)) (vs ! (3 * i + 1)) (vs ! (3 * i + 2)))
               [0..<length (m_joints_all_names this)]"
    by blast
  have "\<forall>i<length (m_joints_all_names this).
           (msg_status l' @ [aggregated_status l']) ! i =
             joint_status (m_temperature_warn_level this) (m_temperature_error_level this)
               (m_joints_all_names this ! i) (vs ! (3 * i)) (vs ! (3 * i + 1)) (vs ! (3 * i + 2))"
    by (simp add: m nth_append)
  moreover have "length (msg_status l' @ [aggregated_status l']) = length (m_joints_all_names this) + 1"
    by (simp add: m)
  ultimately show ?thesis using p by simp
qed

lemma float_le_not_less: "float_le a b \<Longrightarrow> \<not> float_less b a"
  by (cases a; cases b) (auto simp: float_le_def)

subsection \<open>The reading keys\<close>

lemma push_keys_concat:
  "push_keys names keys =
     keys @ concat (map (\<lambda>it. [''Device/SubDeviceList/'' @ it @ ''/Temperature/Sensor/Value'',
                                ''Device/SubDeviceList/'' @ it @ ''/Hardness/Actuator/Value'',
                                ''Device/SubDeviceList/'' @ it @ ''/ElectricCurrent/Sensor/Value'']) names)"
  by (induction names arbitrary: keys) simp_all

lemma concat_triples_length: "length (concat (map (\<lambda>x. [f x, g x, h x]) xs)) = 3 * length xs"
  by (induction xs) simp_all

lemma concat_triples_nth:
  "i < length xs \<Longrightarrow>
     concat (map (\<lambda>x. [f x, g x, h x]) xs) ! (3 * i) = f (xs ! i)
   \<and> concat (map (\<lambda>x. [f x, g x, h x]) xs) ! (3 * i + 1) = g (xs ! i)
   \<and> concat (map (\<lambda>x. [f x, g x, h x]) xs) ! (3 * i + 2) = h (xs ! i)"
proof (induction xs arbitrary: i)
  case Nil
  then show ?case by simp
next
  case (Cons x xs)
  show ?case
  proof (cases i)
    case 0
    then show ?thesis by simp
  next
    case (Suc j)
    with Cons.prems have "j < length xs" by simp
    from Cons.IH [OF this] Suc show ?thesis by simp
  qed
qed

lemma push_keys_length: "length (push_keys names []) = 3 * length names"
  by (simp add: push_keys_concat concat_triples_length)

lemma push_keys_nth:
  assumes "i < length names"
  shows "push_keys names [] ! (3 * i) = ''Device/SubDeviceList/'' @ names ! i @ ''/Temperature/Sensor/Value''"
    and "push_keys names [] ! (3 * i + 1) = ''Device/SubDeviceList/'' @ names ! i @ ''/Hardness/Actuator/Value''"
    and "push_keys names [] ! (3 * i + 2) = ''Device/SubDeviceList/'' @ names ! i @ ''/ElectricCurrent/Sensor/Value''"
  using concat_triples_nth [OF assms,
      of "\<lambda>it. ''Device/SubDeviceList/'' @ it @ ''/Temperature/Sensor/Value''"
         "\<lambda>it. ''Device/SubDeviceList/'' @ it @ ''/Hardness/Actuator/Value''"
         "\<lambda>it. ''Device/SubDeviceList/'' @ it @ ''/ElectricCurrent/Sensor/Value''"]
  by (simp_all add: push_keys_concat)

subsection \<open>Searching a string, and the lowest stiffness\<close>

lemma starts_with_iff: "starts_with s pat = (\<exists>post. s = pat @ post)"
  by (induction s pat rule: starts_with.induct) auto

lemma find_str_None_iff: "(find_str s pat = None) = (\<not> (\<exists>pre post. s = pre @ pat @ post))"
proof (induction s)
  case Nil
  show ?case by auto
next
  case (Cons x xs)
  show ?case
  proof (cases "starts_with (x # xs) pat")
    case True
    then obtain post where "x # xs = pat @ post" unfolding starts_with_iff ..
    then have "x # xs = [] @ pat @ post" by simp
    then have "\<exists>pre post. x # xs = pre @ pat @ post" by blast
    with True show ?thesis by simp
  next
    case False
    have "(\<exists>pre post. x # xs = pre @ pat @ post) = (\<exists>pre post. xs = pre @ pat @ post)"
    proof
      assume "\<exists>pre post. x # xs = pre @ pat @ post"
      then obtain pre post where d: "x # xs = pre @ pat @ post" by blast
      show "\<exists>pre post. xs = pre @ pat @ post"
      proof (cases pre)
        case Nil
        with d have "starts_with (x # xs) pat" unfolding starts_with_iff by auto
        with False show ?thesis by simp
      next
        case (Cons y ys)
        with d have "xs = ys @ pat @ post" by simp
        then show ?thesis by blast
      qed
    next
      assume "\<exists>pre post. xs = pre @ pat @ post"
      then obtain pre post where "xs = pre @ pat @ post" by blast
      then have "x # xs = (x # pre) @ pat @ post" by simp
      then show "\<exists>pre post. x # xs = pre @ pat @ post" by blast
    qed
    with False Cons.IH show ?thesis by simp
  qed
qed

lemma filter_upt_Suc_shift:
  "filter P [0..<Suc k] = (if P 0 then [0] else []) @ map Suc (filter (\<lambda>i. P (Suc i)) [0..<k])"
proof -
  have "[0..<Suc k] = 0 # map Suc [0..<k]"
    by (simp add: upt_conv_Cons map_Suc_upt del: upt_Suc)
  then show ?thesis by (simp add: filter_map o_def del: upt_Suc)
qed

lemma joints_loop_minStiffness:
  "joints_loop sf w e vs names l = Inr l' \<Longrightarrow>
     minStiffness l' =
       foldl std_min (minStiffness l) (map (\<lambda>i. vs ! (val l + 3 * i + 1)) [0..<length names])"
  by (erule joints_loop_cases)
     (simp_all add: loop_body_fields(2,8) upt_Suc_map add.assoc add.left_commute del: upt_Suc)

lemma joints_loop_minStiffnessWoHands:
  "joints_loop sf w e vs names l = Inr l' \<Longrightarrow>
     minStiffnessWoHands l' =
       foldl std_min (minStiffnessWoHands l)
         (map (\<lambda>i. vs ! (val l + 3 * i + 1))
            (filter (\<lambda>i. find_str (names ! i) ''Hand'' = None) [0..<length names]))"
  by (erule joints_loop_cases)
     (simp_all add: loop_body_fields(2,9) filter_upt_Suc_shift o_def add.assoc add.left_commute
        del: upt_Suc)

subsection \<open>The message of the running status\<close>

lemma level_foldl_ge: "level r \<le>s level (foldl setAggregatedMessage r sts)"
  by (simp add: level_foldl_setAggregatedMessage foldl_level_max_ge)

lemma setAggregatedMessage_same_level:
  "level (setAggregatedMessage r s) = level r \<Longrightarrow> setAggregatedMessage r s = r"
  by (auto simp: setAggregatedMessage_def split: if_splits)

lemma setAggregatedMessage_other_level:
  "level (setAggregatedMessage r s) \<noteq> level r \<Longrightarrow>
     level (setAggregatedMessage r s) = level s \<and> message (setAggregatedMessage r s) = message s"
  by (auto simp: setAggregatedMessage_def split: if_splits)

lemma level_le_setAggregatedMessage: "level s \<le>s level (setAggregatedMessage r s)"
  by (simp add: level_setAggregatedMessage level_max_ge2)

text \<open>
  The running status after a list of statuses: unchanged when its level is, and otherwise
  level and message of the first status at the final level.
\<close>

lemma foldl_setAggregatedMessage_first:
  "(level (foldl setAggregatedMessage r sts) = level r \<longrightarrow> foldl setAggregatedMessage r sts = r)
   \<and> (level (foldl setAggregatedMessage r sts) \<noteq> level r \<longrightarrow>
        (\<exists>st. find (\<lambda>st. level st = level (foldl setAggregatedMessage r sts)) sts = Some st
           \<and> message (foldl setAggregatedMessage r sts) = message st))"
proof (induction sts arbitrary: r)
  case Nil
  show ?case by simp
next
  case (Cons s rest)
  define r1 where "r1 = setAggregatedMessage r s"
  define F where "F = foldl setAggregatedMessage r1 rest"
  have F: "foldl setAggregatedMessage r (s # rest) = F" by (simp add: F_def r1_def)
  have le1: "level r \<le>s level r1" unfolding r1_def
    by (simp add: level_setAggregatedMessage level_max_ge1)
  have le2: "level s \<le>s level r1" unfolding r1_def by (rule level_le_setAggregatedMessage)
  have le3: "level r1 \<le>s level F" unfolding F_def by (rule level_foldl_ge)
  note ih = Cons.IH [of r1, folded F_def]
  show ?case unfolding F
  proof (intro conjI impI)
    assume eq: "level F = level r"
    with le1 le3 have "level r1 = level r" by (auto intro: signed.order.antisym)
    then have "r1 = r" unfolding r1_def by (rule setAggregatedMessage_same_level)
    with ih eq show "F = r" by simp
  next
    assume ne: "level F \<noteq> level r"
    show "\<exists>st. find (\<lambda>st. level st = level F) (s # rest) = Some st \<and> message F = message st"
    proof (cases "level F = level r1")
      case True
      with ih have Fr: "F = r1" by simp
      with ne have "level r1 \<noteq> level r" by simp
      then have "level r1 = level s \<and> message r1 = message s"
        unfolding r1_def by (rule setAggregatedMessage_other_level)
      with Fr show ?thesis by simp
    next
      case False
      with ih obtain st where st: "find (\<lambda>st. level st = level F) rest = Some st"
        "message F = message st" by blast
      have "level s \<noteq> level F"
      proof
        assume "level s = level F"
        with le2 le3 have "level r1 = level F" by (auto intro: signed.order.antisym)
        with False show False by simp
      qed
      with st show ?thesis by simp
    qed
  qed
qed

lemma joint_status_message_by_level:
  "message (joint_status w e n t s c) =
     (if level (joint_status w e n t s c) = OK then ''OK''
      else if level (joint_status w e n t s c) = WARN then ''Hot''
      else ''HIGH JOINT TEMPERATURE : '' @ n)"
  using OK_le_levels(8,9,10)
  by (simp add: joint_status_level joint_status_message)

subsection \<open>Bounds of the statistics\<close>

lemma float_le_less_trans: "float_le a b \<Longrightarrow> float_less b c \<Longrightarrow> float_less a c"
  by (cases a; cases b; cases c) (auto simp: float_le_def)

lemma float_less_le_trans: "float_less a b \<Longrightarrow> float_le b c \<Longrightarrow> float_less a c"
  by (cases a; cases b; cases c) (auto simp: float_le_def)

lemma std_max_lower: "float_le c a \<Longrightarrow> float_le c (std_max a b)"
  using float_le_less_trans [of c a b] by (auto simp: std_max_def float_le_def)

lemma std_min_upper: "float_le a c \<Longrightarrow> float_le (std_min a b) c"
  using float_less_le_trans [of b a c] by (auto simp: std_min_def float_le_def)

lemma joints_loop_bounds:
  assumes "joints_loop sf w e vs names l = Inr l'"
  shows "float_le c (maxTemperature l) \<longrightarrow> float_le c (maxTemperature l')"
    and "float_le c (maxStiffness l) \<longrightarrow> float_le c (maxStiffness l')"
    and "float_le (minStiffness l) c \<longrightarrow> float_le (minStiffness l') c"
    and "float_le (minStiffnessWoHands l) c \<longrightarrow> float_le (minStiffnessWoHands l') c"
    and "float_le c (maxCurrent l) \<longrightarrow> float_le c (maxCurrent l')"
    and "float_le (minCurrent l) c \<longrightarrow> float_le (minCurrent l') c"
  by (rule joints_loop_cases [OF assms]; simp add: loop_body_fields std_max_lower std_min_upper)+

section \<open>The claims\<close>

text \<open>
  C3. When the bulk read of the reading keys raises, \<open>publish\<close> returns false, the list
  of published messages is as it was, and the running status has its reset value: level
  \<open>OK\<close>, message \<^verbatim>\<open>OK\<close>. (The model never yields the fault here: the result is \<open>Inr\<close>.)
\<close>

theorem publish_query_failure:
  assumes "getListData (m_keys_tocheck this) = Inl x"
  shows "\<exists>this'. publish sf getListData now this pub = Inr (False, this', pub)
           \<and> level (m_status this') = OK \<and> message (m_status this') = ''OK''
           \<and> getStatusMsg this' = ''OK''"
  using assms by (simp add: publish_read_failed getStatusMsg_def)

theorem publish_query_failure_witness:
  "(\<lambda>keys. Inl ''ALMemory is not reachable'' :: string + float list)
      (m_keys_tocheck ((Diagnostics_new [''HeadYaw''] (Fin 75))
          \<lparr>m_status := \<lparr>level = ERROR, name = ''naoqi_dcm_driver_joints:Status'',
              message = ''HIGH JOINT TEMPERATURE : HeadYaw'', hardware_id = ''robot'',
              key_values = []\<rparr>\<rparr>)) = Inl ''ALMemory is not reachable''
   \<and> (\<exists>this'. publish (\<lambda>t. []) (\<lambda>keys. Inl ''ALMemory is not reachable'') 7
       ((Diagnostics_new [''HeadYaw''] (Fin 75))
          \<lparr>m_status := \<lparr>level = ERROR, name = ''naoqi_dcm_driver_joints:Status'',
              message = ''HIGH JOINT TEMPERATURE : HeadYaw'', hardware_id = ''robot'',
              key_values = []\<rparr>\<rparr>) []
      = Inr (False, this', []) \<and> level (m_status this') = OK \<and> message (m_status this') = ''OK''
        \<and> getStatusMsg this' = ''OK'')"
  using publish_query_failure [where getListData = "\<lambda>keys. Inl ''ALMemory is not reachable''"
      and x = "''ALMemory is not reachable''"
      and this = "(Diagnostics_new [''HeadYaw''] (Fin 75))
          \<lparr>m_status := \<lparr>level = ERROR, name = ''naoqi_dcm_driver_joints:Status'',
              message = ''HIGH JOINT TEMPERATURE : HeadYaw'', hardware_id = ''robot'',
              key_values = []\<rparr>\<rparr>"
      and sf = "\<lambda>t. []" and now = 7 and pub = "[]"]
  by simp

text \<open>
  C9. The loop of \<open>publish\<close> reads the values by position and checks no length. A read
  outside the vector happens exactly when the bulk read succeeded and returned fewer than
  three values for every joint; with at least that many values, and when the read raises,
  it does not happen.
\<close>

theorem publish_indexing:
  "(publish sf getListData now this pub = Inl OutOfRange) =
     (case getListData (m_keys_tocheck this) of
        Inl x \<Rightarrow> False
      | Inr vs \<Rightarrow> length vs < 3 * length (m_joints_all_names this))"
proof (cases "getListData (m_keys_tocheck this)")
  case (Inl x)
  then show ?thesis by (simp add: publish_read_failed)
next
  case (Inr vs)
  then show ?thesis by (simp add: publish_fault_iff)
qed

theorem publish_indexing_witness:
  "publish (\<lambda>t. []) (\<lambda>keys. Inr [Fin 80, Fin (1/2), Fin 2, Fin 60, Fin (1/4)]) 7
       (Diagnostics_new [''J1'', ''J2''] (Fin 75)) [] = Inl OutOfRange
   \<and> publish (\<lambda>t. []) (\<lambda>keys. Inr [Fin 80, Fin (1/2), Fin 2, Fin 60, Fin (1/4), Fin 1]) 7
       (Diagnostics_new [''J1'', ''J2''] (Fin 75)) [] \<noteq> Inl OutOfRange"
  using publish_indexing [of "\<lambda>t. []" "\<lambda>keys. Inr [Fin 80, Fin (1/2), Fin 2, Fin 60, Fin (1/4)]" 7
       "Diagnostics_new [''J1'', ''J2''] (Fin 75)" "[]"]
    publish_indexing [of "\<lambda>t. []" "\<lambda>keys. Inr [Fin 80, Fin (1/2), Fin 2, Fin 60, Fin (1/4), Fin 1]" 7
       "Diagnostics_new [''J1'', ''J2''] (Fin 75)" "[]"]
  by (simp add: Diagnostics_new_def)

text \<open>
  C2. In a cycle that completes, the message published is the statuses of the joints
  followed by the aggregate status. The level of the aggregate status is the maximum of the
  levels of the joints under the signed order (\<open>OK\<close> below \<open>WARN\<close> below \<open>ERROR\<close>): no
  joint is above it and, when there is a joint, one joint has it (with no joint it is
  \<open>OK\<close>). Its message is a function of its level alone: \<^verbatim>\<open>OK\<close> for \<open>OK\<close>, \<^verbatim>\<open>WARN\<close>
  for \<open>WARN\<close>, \<^verbatim>\<open>ERROR\<close> for every other level.
\<close>

theorem aggregate_level_and_message:
  assumes "getListData (m_keys_tocheck this) = Inr vs"
    and "3 * length (m_joints_all_names this) \<le> length vs"
  shows "\<exists>r this' msg. publish sf getListData now this pub = Inr (r, this', pub @ [msg])
     \<and> length (status_list msg) = length (m_joints_all_names this) + 1
     \<and> (\<forall>st\<in>set (butlast (status_list msg)). level st \<le>s level (last (status_list msg)))
     \<and> (if butlast (status_list msg) = [] then level (last (status_list msg)) = OK
         else \<exists>st\<in>set (butlast (status_list msg)). level st = level (last (status_list msg)))
     \<and> message (last (status_list msg)) =
          (if level (last (status_list msg)) = OK then ''OK''
           else if level (last (status_list msg)) = WARN then ''WARN'' else ''ERROR'')"
proof -
  from publish_cycle [where getListData = getListData and this = this and vs = vs and sf = sf
      and now = now and pub = pub, OF assms] obtain l' where
    p: "publish sf getListData now this pub =
       Inr (\<not> ERROR \<le>s level (running l'), this\<lparr>m_status := running l'\<rparr>,
            pub @ [\<lparr>stamp = now, status_list = msg_status l' @ [aggregated_status l']\<rparr>])"
    and m: "msg_status l' =
           map (\<lambda>i. joint_status (m_temperature_warn_level this) (m_temperature_error_level this)
                      (m_joints_all_names this ! i) (vs ! (3 * i)) (vs ! (3 * i + 1)) (vs ! (3 * i + 2)))
               [0..<length (m_joints_all_names this)]"
    and ml: "max_level l' = foldl level_max OK (map level (msg_status l'))"
    by blast
  define ls where "ls = map level (msg_status l')"
  have three: "\<forall>lv\<in>set ls. lv = OK \<or> lv = WARN \<or> lv = ERROR"
    unfolding ls_def m using joint_status_level_cases by auto
  have lev: "level (aggregated_status l') = foldl level_max OK ls"
    by (simp add: aggregated_status_fields ml ls_def)
  have a: "\<forall>st\<in>set (msg_status l'). level st \<le>s level (aggregated_status l')"
    using foldl_level_max_three(1) [OF three] by (simp add: lev ls_def)
  have b: "msg_status l' \<noteq> [] \<Longrightarrow> \<exists>st\<in>set (msg_status l'). level st = level (aggregated_status l')"
    using foldl_level_max_three(2) [OF three] by (auto simp: lev ls_def)
  have c: "msg_status l' = [] \<Longrightarrow> level (aggregated_status l') = OK"
    using foldl_level_max_three(3) [OF three] by (simp add: lev ls_def)
  have d: "message (aggregated_status l') =
          (if level (aggregated_status l') = OK then ''OK''
           else if level (aggregated_status l') = WARN then ''WARN'' else ''ERROR'')"
    by (simp add: aggregated_status_fields)
  have len: "length (msg_status l') = length (m_joints_all_names this)"
    by (simp add: m)
  show ?thesis
    apply (rule exI [of _ "\<not> ERROR \<le>s level (running l')"])
    apply (rule exI [of _ "this\<lparr>m_status := running l'\<rparr>"])
    apply (rule exI [of _ "\<lparr>stamp = now, status_list = msg_status l' @ [aggregated_status l']\<rparr>"])
    using p a b c d len by simp
qed

theorem aggregate_level_and_message_witness:
  "((\<lambda>keys. Inr [Fin 60, Fin (1/2), Fin 2, Fin 70, Fin (1/4), Fin 1, Fin 50, Fin 1, Fin 3] :: string + float list)
     (m_keys_tocheck (Diagnostics_new [''J1'', ''J2'', ''J3''] (Fin 75)))
     = Inr [Fin 60, Fin (1/2), Fin 2, Fin 70, Fin (1/4), Fin 1, Fin 50, Fin 1, Fin 3]
   \<and> 3 * length (m_joints_all_names (Diagnostics_new [''J1'', ''J2'', ''J3''] (Fin 75)))
        \<le> length [Fin 60, Fin (1/2), Fin 2, Fin 70, Fin (1/4), Fin 1, Fin 50, Fin 1, Fin 3]
   \<and> (\<exists>r this' msg.
         publish (\<lambda>t. []) (\<lambda>keys. Inr [Fin 60, Fin (1/2), Fin 2, Fin 70, Fin (1/4), Fin 1, Fin 50, Fin 1, Fin 3])
           7 (Diagnostics_new [''J1'', ''J2'', ''J3''] (Fin 75)) [] = Inr (r, this', [] @ [msg])
       \<and> length (status_list msg)
            = length (m_joints_all_names (Diagnostics_new [''J1'', ''J2'', ''J3''] (Fin 75))) + 1
       \<and> (\<forall>st\<in>set (butlast (status_list msg)). level st \<le>s level (last (status_list msg)))
       \<and> (if butlast (status_list msg) = [] then level (last (status_list msg)) = OK
           else \<exists>st\<in>set (butlast (status_list msg)). level st = level (last (status_list msg)))
       \<and> message (last (status_list msg)) =
            (if level (last (status_list msg)) = OK then ''OK''
             else if level (last (status_list msg)) = WARN then ''WARN'' else ''ERROR'')))
   \<and> (\<exists>this' msg.
         publish (\<lambda>t. []) (\<lambda>keys. Inr [Fin 60, Fin (1/2), Fin 2, Fin 70, Fin (1/4), Fin 1, Fin 50, Fin 1, Fin 3])
           7 (Diagnostics_new [''J1'', ''J2'', ''J3''] (Fin 75)) [] = Inr (True, this', [msg])
       \<and> map level (butlast (status_list msg)) = [OK, WARN, OK]
       \<and> level (last (status_list msg)) = WARN
       \<and> message (last (status_list msg)) = ''WARN'')"
proof (rule conjI)
  show "(\<lambda>keys. Inr [Fin 60, Fin (1/2), Fin 2, Fin 70, Fin (1/4), Fin 1, Fin 50, Fin 1, Fin 3] :: string + float list)
     (m_keys_tocheck (Diagnostics_new [''J1'', ''J2'', ''J3''] (Fin 75)))
     = Inr [Fin 60, Fin (1/2), Fin 2, Fin 70, Fin (1/4), Fin 1, Fin 50, Fin 1, Fin 3]
   \<and> 3 * length (m_joints_all_names (Diagnostics_new [''J1'', ''J2'', ''J3''] (Fin 75)))
        \<le> length [Fin 60, Fin (1/2), Fin 2, Fin 70, Fin (1/4), Fin 1, Fin 50, Fin 1, Fin 3]
   \<and> (\<exists>r this' msg.
         publish (\<lambda>t. []) (\<lambda>keys. Inr [Fin 60, Fin (1/2), Fin 2, Fin 70, Fin (1/4), Fin 1, Fin 50, Fin 1, Fin 3])
           7 (Diagnostics_new [''J1'', ''J2'', ''J3''] (Fin 75)) [] = Inr (r, this', [] @ [msg])
       \<and> length (status_list msg)
            = length (m_joints_all_names (Diagnostics_new [''J1'', ''J2'', ''J3''] (Fin 75))) + 1
       \<and> (\<forall>st\<in>set (butlast (status_list msg)). level st \<le>s level (last (status_list msg)))
       \<and> (if butlast (status_list msg) = [] then level (last (status_list msg)) = OK
           else \<exists>st\<in>set (butlast (status_list msg)). level st = level (last (status_list msg)))
       \<and> message (last (status_list msg)) =
            (if level (last (status_list msg)) = OK then ''OK''
             else if level (last (status_list msg)) = WARN then ''WARN'' else ''ERROR''))"
    using aggregate_level_and_message [where sf = "\<lambda>t. []"
      and getListData = "\<lambda>keys. Inr [Fin 60, Fin (1/2), Fin 2, Fin 70, Fin (1/4), Fin 1, Fin 50, Fin 1, Fin 3]"
      and vs = "[Fin 60, Fin (1/2), Fin 2, Fin 70, Fin (1/4), Fin 1, Fin 50, Fin 1, Fin 3]"
      and now = 7 and this = "Diagnostics_new [''J1'', ''J2'', ''J3''] (Fin 75)" and pub = "[]"]
    by (simp add: Diagnostics_new_def)
next
  show "\<exists>this' msg.
         publish (\<lambda>t. []) (\<lambda>keys. Inr [Fin 60, Fin (1/2), Fin 2, Fin 70, Fin (1/4), Fin 1, Fin 50, Fin 1, Fin 3])
           7 (Diagnostics_new [''J1'', ''J2'', ''J3''] (Fin 75)) [] = Inr (True, this', [msg])
       \<and> map level (butlast (status_list msg)) = [OK, WARN, OK]
       \<and> level (last (status_list msg)) = WARN
       \<and> message (last (status_list msg)) = ''WARN''"
    by (simp add: run_defs)
qed

text \<open>
  C4. In a cycle that completes, \<open>publish\<close> returns false exactly when the level of the
  running status it leaves is \<open>ERROR\<close> or above; it returns true exactly when every joint
  is at \<open>WARN\<close> or below, so a cycle whose worst joint is at \<open>WARN\<close> returns true.
\<close>

theorem publish_return_value:
  assumes "getListData (m_keys_tocheck this) = Inr vs"
    and "3 * length (m_joints_all_names this) \<le> length vs"
  shows "\<exists>r this' msg. publish sf getListData now this pub = Inr (r, this', pub @ [msg])
     \<and> (\<not> r) = (ERROR \<le>s level (m_status this'))
     \<and> r = (\<forall>st\<in>set (butlast (status_list msg)). level st \<le>s WARN)"
proof -
  from publish_cycle [where getListData = getListData and this = this and vs = vs and sf = sf
      and now = now and pub = pub, OF assms] obtain l' where
    p: "publish sf getListData now this pub =
       Inr (\<not> ERROR \<le>s level (running l'), this\<lparr>m_status := running l'\<rparr>,
            pub @ [\<lparr>stamp = now, status_list = msg_status l' @ [aggregated_status l']\<rparr>])"
    and m: "msg_status l' =
           map (\<lambda>i. joint_status (m_temperature_warn_level this) (m_temperature_error_level this)
                      (m_joints_all_names this ! i) (vs ! (3 * i)) (vs ! (3 * i + 1)) (vs ! (3 * i + 2)))
               [0..<length (m_joints_all_names this)]"
    and ru: "running l' = foldl setAggregatedMessage (running (initial_locals (m_status this))) (msg_status l')"
    by blast
  define ls where "ls = map level (msg_status l')"
  have three: "\<forall>lv\<in>set ls. lv = OK \<or> lv = WARN \<or> lv = ERROR"
    unfolding ls_def m using joint_status_level_cases by auto
  have lev: "level (running l') = foldl level_max OK ls"
    by (simp add: ru level_foldl_setAggregatedMessage initial_locals_fields ls_def)
  have "(ERROR \<le>s level (running l')) = (\<exists>lv\<in>set ls. lv = ERROR)"
    unfolding lev by (rule foldl_level_max_three(4) [OF three])
  also have "\<dots> = (\<not> (\<forall>lv\<in>set ls. lv \<le>s WARN))"
    using three level_le_WARN_iff by auto
  finally have r: "(\<not> ERROR \<le>s level (running l')) = (\<forall>st\<in>set (msg_status l'). level st \<le>s WARN)"
    by (simp add: ls_def)
  show ?thesis
    apply (rule exI [of _ "\<not> ERROR \<le>s level (running l')"])
    apply (rule exI [of _ "this\<lparr>m_status := running l'\<rparr>"])
    apply (rule exI [of _ "\<lparr>stamp = now, status_list = msg_status l' @ [aggregated_status l']\<rparr>"])
    using p r by auto
qed

theorem publish_return_value_witness:
  "((\<lambda>keys. Inr [Fin 70, Fin (1/2), Fin 2, Fin 60, Fin (1/4), Fin 1] :: string + float list)
     (m_keys_tocheck (Diagnostics_new [''J1'', ''J2''] (Fin 75)))
     = Inr [Fin 70, Fin (1/2), Fin 2, Fin 60, Fin (1/4), Fin 1]
   \<and> 3 * length (m_joints_all_names (Diagnostics_new [''J1'', ''J2''] (Fin 75)))
        \<le> length [Fin 70, Fin (1/2), Fin 2, Fin 60, Fin (1/4), Fin 1]
   \<and> (\<exists>r this' msg.
         publish (\<lambda>t. []) (\<lambda>keys. Inr [Fin 70, Fin (1/2), Fin 2, Fin 60, Fin (1/4), Fin 1])
           7 (Diagnostics_new [''J1'', ''J2''] (Fin 75)) [] = Inr (r, this', [] @ [msg])
       \<and> (\<not> r) = (ERROR \<le>s level (m_status this'))
       \<and> r = (\<forall>st\<in>set (butlast (status_list msg)). level st \<le>s WARN)))
   \<and> (\<exists>this' msg.
         publish (\<lambda>t. []) (\<lambda>keys. Inr [Fin 70, Fin (1/2), Fin 2, Fin 60, Fin (1/4), Fin 1])
           7 (Diagnostics_new [''J1'', ''J2''] (Fin 75)) [] = Inr (True, this', [msg])
       \<and> level (m_status this') = WARN
       \<and> map level (butlast (status_list msg)) = [WARN, OK])
   \<and> (\<exists>this' msg.
         publish (\<lambda>t. []) (\<lambda>keys. Inr [Fin 80, Fin (1/2), Fin 2, Fin 60, Fin (1/4), Fin 1])
           7 (Diagnostics_new [''J1'', ''J2''] (Fin 75)) [] = Inr (False, this', [msg])
       \<and> level (m_status this') = ERROR
       \<and> map level (butlast (status_list msg)) = [ERROR, OK])"
proof (intro conjI)
  show "\<exists>r this' msg.
         publish (\<lambda>t. []) (\<lambda>keys. Inr [Fin 70, Fin (1/2), Fin 2, Fin 60, Fin (1/4), Fin 1])
           7 (Diagnostics_new [''J1'', ''J2''] (Fin 75)) [] = Inr (r, this', [] @ [msg])
       \<and> (\<not> r) = (ERROR \<le>s level (m_status this'))
       \<and> r = (\<forall>st\<in>set (butlast (status_list msg)). level st \<le>s WARN)"
    using publish_return_value [where sf = "\<lambda>t. []"
      and getListData = "\<lambda>keys. Inr [Fin 70, Fin (1/2), Fin 2, Fin 60, Fin (1/4), Fin 1]"
      and vs = "[Fin 70, Fin (1/2), Fin 2, Fin 60, Fin (1/4), Fin 1]"
      and now = 7 and this = "Diagnostics_new [''J1'', ''J2''] (Fin 75)" and pub = "[]"]
    by (simp add: Diagnostics_new_def)
qed (simp_all add: run_defs)

text \<open>
  C6. Within a cycle the running status only escalates. \<open>setAggregatedMessage\<close> takes
  level and message of a status when its level is strictly above the running one and
  changes nothing otherwise, so the running level does not go down; the cycle starts from
  \<open>OK\<close>; every turn of the loop applies \<open>setAggregatedMessage\<close> to the status it has just
  appended; and between any two points of the loop (after the joints \<open>xs\<close>, then after the
  joints \<open>ys\<close> that follow) the running level does not decrease.
\<close>

theorem running_status_escalates:
  "(if level running_status <s level status
    then level (setAggregatedMessage running_status status) = level status
       \<and> message (setAggregatedMessage running_status status) = message status
    else setAggregatedMessage running_status status = running_status)
   \<and> level running_status \<le>s level (setAggregatedMessage running_status status)
   \<and> level (running (initial_locals st)) = OK
   \<and> (val l + 3 \<le> length vs \<longrightarrow>
        (\<exists>l'. loop_body sf w e vs n l = Inr l'
           \<and> running l' = setAggregatedMessage (running l) (last (msg_status l'))))
   \<and> (val l + 3 * length (xs @ ys) \<le> length vs \<longrightarrow>
        (\<exists>l1 l2. joints_loop sf w e vs xs l = Inr l1 \<and> joints_loop sf w e vs ys l1 = Inr l2
           \<and> joints_loop sf w e vs (xs @ ys) l = Inr l2
           \<and> level (running l) \<le>s level (running l1)
           \<and> level (running l1) \<le>s level (running l2)))"
proof (intro conjI impI)
  show "if level running_status <s level status
    then level (setAggregatedMessage running_status status) = level status
       \<and> message (setAggregatedMessage running_status status) = message status
    else setAggregatedMessage running_status status = running_status"
    by (simp add: setAggregatedMessage_def)
  show "level running_status \<le>s level (setAggregatedMessage running_status status)"
    by (simp add: level_setAggregatedMessage level_max_ge1)
  show "level (running (initial_locals st)) = OK"
    by (simp add: initial_locals_fields)
next
  assume "val l + 3 \<le> length vs"
  then obtain l' where b: "loop_body sf w e vs n l = Inr l'"
    using loop_body_Inr_iff [of sf w e vs n l] by blast
  from loop_body_fields(3,4) [OF b] b
  show "\<exists>l'. loop_body sf w e vs n l = Inr l'
           \<and> running l' = setAggregatedMessage (running l) (last (msg_status l'))"
    by simp
next
  assume len: "val l + 3 * length (xs @ ys) \<le> length vs"
  then have "\<exists>l2. joints_loop sf w e vs (xs @ ys) l = Inr l2"
    unfolding joints_loop_Inr_iff by simp
  then obtain l2 where a: "joints_loop sf w e vs (xs @ ys) l = Inr l2" ..
  then obtain l1 where x: "joints_loop sf w e vs xs l = Inr l1"
    and y: "joints_loop sf w e vs ys l1 = Inr l2"
    by (auto simp: joints_loop_append split: sum.splits)
  from joints_loop_running_level [OF x] joints_loop_running_level [OF y] a x y
  show "\<exists>l1 l2. joints_loop sf w e vs xs l = Inr l1 \<and> joints_loop sf w e vs ys l1 = Inr l2
           \<and> joints_loop sf w e vs (xs @ ys) l = Inr l2
           \<and> level (running l) \<le>s level (running l1)
           \<and> level (running l1) \<le>s level (running l2)"
    by blast
qed

theorem running_status_escalates_witness:
  "setAggregatedMessage
      \<lparr>level = WARN, name = ''naoqi_dcm_driver_joints:Status'', message = ''Hot'',
         hardware_id = ''robot'', key_values = []\<rparr>
      (joint_status (Fin 68) (Fin 75) ''J2'' (Fin 60) (Fin (1/4)) (Fin 1))
     = \<lparr>level = WARN, name = ''naoqi_dcm_driver_joints:Status'', message = ''Hot'',
         hardware_id = ''robot'', key_values = []\<rparr>
   \<and> WARN \<le>s level (setAggregatedMessage
      \<lparr>level = WARN, name = ''naoqi_dcm_driver_joints:Status'', message = ''Hot'',
         hardware_id = ''robot'', key_values = []\<rparr>
      (joint_status (Fin 68) (Fin 75) ''J2'' (Fin 60) (Fin (1/4)) (Fin 1)))
   \<and> val (initial_locals new_status) + 3 * length ([''J1''] @ [''J2''])
        \<le> length [Fin 70, Fin (1/2), Fin 2, Fin 60, Fin (1/4), Fin 1]
   \<and> (\<exists>l'. loop_body (\<lambda>t. []) (Fin 68) (Fin 75) [Fin 70, Fin (1/2), Fin 2, Fin 60, Fin (1/4), Fin 1]
               ''J1'' (initial_locals new_status) = Inr l'
           \<and> running l' = setAggregatedMessage (running (initial_locals new_status)) (last (msg_status l')))
   \<and> (\<exists>l1 l2.
         joints_loop (\<lambda>t. []) (Fin 68) (Fin 75) [Fin 70, Fin (1/2), Fin 2, Fin 60, Fin (1/4), Fin 1]
           [''J1''] (initial_locals new_status) = Inr l1
       \<and> joints_loop (\<lambda>t. []) (Fin 68) (Fin 75) [Fin 70, Fin (1/2), Fin 2, Fin 60, Fin (1/4), Fin 1]
           [''J2''] l1 = Inr l2
       \<and> joints_loop (\<lambda>t. []) (Fin 68) (Fin 75) [Fin 70, Fin (1/2), Fin 2, Fin 60, Fin (1/4), Fin 1]
           ([''J1''] @ [''J2'']) (initial_locals new_status) = Inr l2
       \<and> level (running (initial_locals new_status)) \<le>s level (running l1)
       \<and> level (running l1) \<le>s level (running l2))
   \<and> (\<exists>l1 l2.
         joints_loop (\<lambda>t. []) (Fin 68) (Fin 75) [Fin 70, Fin (1/2), Fin 2, Fin 60, Fin (1/4), Fin 1]
           [''J1''] (initial_locals new_status) = Inr l1
       \<and> joints_loop (\<lambda>t. []) (Fin 68) (Fin 75) [Fin 70, Fin (1/2), Fin 2, Fin 60, Fin (1/4), Fin 1]
           [''J2''] l1 = Inr l2
       \<and> level (running l1) = WARN \<and> message (running l1) = ''Hot'' 
       \<and> level (running l2) = WARN \<and> message (running l2) = ''Hot'')"
proof -
  note t = running_status_escalates [where running_status = "\<lparr>level = WARN,
         name = ''naoqi_dcm_driver_joints:Status'', message = ''Hot'',
         hardware_id = ''robot'', key_values = []\<rparr>"
      and status = "joint_status (Fin 68) (Fin 75) ''J2'' (Fin 60) (Fin (1/4)) (Fin 1)"
      and l = "initial_locals new_status" and st = new_status
      and vs = "[Fin 70, Fin (1/2), Fin 2, Fin 60, Fin (1/4), Fin 1]"
      and sf = "\<lambda>t. []" and w = "Fin 68" and e = "Fin 75" and n = "''J1''"
      and xs = "[''J1'']" and ys = "[''J2'']"]
  have l: "val (initial_locals new_status) + 3 \<le> length [Fin 70, Fin (1/2), Fin 2, Fin 60, Fin (1/4), Fin 1]"
    "val (initial_locals new_status) + 3 * length ([''J1''] @ [''J2''])
        \<le> length [Fin 70, Fin (1/2), Fin 2, Fin 60, Fin (1/4), Fin 1]"
    by (simp_all add: initial_locals_fields)
  have c1: "setAggregatedMessage
      \<lparr>level = WARN, name = ''naoqi_dcm_driver_joints:Status'', message = ''Hot'',
         hardware_id = ''robot'', key_values = []\<rparr>
      (joint_status (Fin 68) (Fin 75) ''J2'' (Fin 60) (Fin (1/4)) (Fin 1))
     = \<lparr>level = WARN, name = ''naoqi_dcm_driver_joints:Status'', message = ''Hot'',
         hardware_id = ''robot'', key_values = []\<rparr>"
    using t [THEN conjunct1]
    by (simp add: joint_status_level OK_def WARN_def level_numerals)
  have c2: "WARN \<le>s level (setAggregatedMessage
      \<lparr>level = WARN, name = ''naoqi_dcm_driver_joints:Status'', message = ''Hot'',
         hardware_id = ''robot'', key_values = []\<rparr>
      (joint_status (Fin 68) (Fin 75) ''J2'' (Fin 60) (Fin (1/4)) (Fin 1)))"
    using t [THEN conjunct2, THEN conjunct1] by simp
  note c4 = t [THEN conjunct2, THEN conjunct2, THEN conjunct2, THEN conjunct1, THEN mp, OF l(1)]
  note c5 = t [THEN conjunct2, THEN conjunct2, THEN conjunct2, THEN conjunct2, THEN mp, OF l(2)]
  have run: "\<exists>l1 l2.
         joints_loop (\<lambda>t. []) (Fin 68) (Fin 75) [Fin 70, Fin (1/2), Fin 2, Fin 60, Fin (1/4), Fin 1]
           [''J1''] (initial_locals new_status) = Inr l1
       \<and> joints_loop (\<lambda>t. []) (Fin 68) (Fin 75) [Fin 70, Fin (1/2), Fin 2, Fin 60, Fin (1/4), Fin 1]
           [''J2''] l1 = Inr l2
       \<and> level (running l1) = WARN \<and> message (running l1) = ''Hot'' 
       \<and> level (running l2) = WARN \<and> message (running l2) = ''Hot''"
    by (simp add: run_defs)
  show ?thesis
    by (intro conjI) (rule c1 c2 l(2) c4 c5 run)+
qed

text \<open>
  C1, as the code has it. For an object built by the constructor (whatever its running
  status) and a cycle that completes, the level and the message of the status of joint
  \<open>i\<close> follow from its temperature \<open>t\<close>, the value at position \<open>3 * i\<close>, the warn level
  68 and the error level \<open>E\<close> given to the constructor: below 68 the level is \<open>OK\<close> and the
  message \<^verbatim>\<open>OK\<close>; from 68 on and below \<open>E\<close> they are \<open>WARN\<close> and \<^verbatim>\<open>Hot\<close>; from 68 on and
  from \<open>E\<close> on they are \<open>ERROR\<close> and \<^verbatim>\<open>HIGH JOINT TEMPERATURE : \<close> followed by the name of
  the joint (with a space before the colon). A second cycle on any other values with the
  same temperature for that joint gives it the same level and message: stiffness and current
  do not count.
\<close>

theorem joint_classification:
  assumes "getListData (push_keys names []) = Inr vs"
    and "3 * length names \<le> length vs"
  shows "\<exists>r this' msg.
      publish sf getListData now ((Diagnostics_new names E)\<lparr>m_status := s\<rparr>) pub
        = Inr (r, this', pub @ [msg])
     \<and> (\<forall>i<length names.
          (float_less (vs ! (3 * i)) (Fin 68) \<longrightarrow>
             level (status_list msg ! i) = OK \<and> message (status_list msg ! i) = ''OK'')
        \<and> (float_le (Fin 68) (vs ! (3 * i)) \<and> float_less (vs ! (3 * i)) E \<longrightarrow>
             level (status_list msg ! i) = WARN \<and> message (status_list msg ! i) = ''Hot'')
        \<and> (float_le (Fin 68) (vs ! (3 * i)) \<and> float_ge (vs ! (3 * i)) E \<longrightarrow>
             level (status_list msg ! i) = ERROR
           \<and> message (status_list msg ! i) = ''HIGH JOINT TEMPERATURE : '' @ names ! i)
        \<and> (\<forall>vs2. 3 * length names \<le> length vs2 \<and> vs2 ! (3 * i) = vs ! (3 * i) \<longrightarrow>
             (\<exists>r2 this2 msg2.
                publish sf (\<lambda>keys. Inr vs2) now ((Diagnostics_new names E)\<lparr>m_status := s\<rparr>) pub
                  = Inr (r2, this2, pub @ [msg2])
              \<and> level (status_list msg2 ! i) = level (status_list msg ! i)
              \<and> message (status_list msg2 ! i) = message (status_list msg ! i))))"
proof -
  let ?d = "(Diagnostics_new names E)\<lparr>m_status := s\<rparr>"
  have a1: "getListData (m_keys_tocheck ?d) = Inr vs" and
    a2: "3 * length (m_joints_all_names ?d) \<le> length vs"
    using assms by (simp_all add: Diagnostics_new_fields)
  from publish_joint_statuses [where getListData = getListData and this = ?d and vs = vs
      and sf = sf and now = now and pub = pub, OF a1 a2]
  obtain r this' msg where
    p: "publish sf getListData now ?d pub = Inr (r, this', pub @ [msg])"
    and j: "\<forall>i<length names. status_list msg ! i =
             joint_status (Fin 68) E (names ! i) (vs ! (3 * i)) (vs ! (3 * i + 1)) (vs ! (3 * i + 2))"
    by (auto simp: Diagnostics_new_fields)
  have "(float_less (vs ! (3 * i)) (Fin 68) \<longrightarrow>
             level (status_list msg ! i) = OK \<and> message (status_list msg ! i) = ''OK'')
        \<and> (float_le (Fin 68) (vs ! (3 * i)) \<and> float_less (vs ! (3 * i)) E \<longrightarrow>
             level (status_list msg ! i) = WARN \<and> message (status_list msg ! i) = ''Hot'')
        \<and> (float_le (Fin 68) (vs ! (3 * i)) \<and> float_ge (vs ! (3 * i)) E \<longrightarrow>
             level (status_list msg ! i) = ERROR
           \<and> message (status_list msg ! i) = ''HIGH JOINT TEMPERATURE : '' @ names ! i)
        \<and> (\<forall>vs2. 3 * length names \<le> length vs2 \<and> vs2 ! (3 * i) = vs ! (3 * i) \<longrightarrow>
             (\<exists>r2 this2 msg2.
                publish sf (\<lambda>keys. Inr vs2) now ?d pub = Inr (r2, this2, pub @ [msg2])
              \<and> level (status_list msg2 ! i) = level (status_list msg ! i)
              \<and> message (status_list msg2 ! i) = message (status_list msg ! i)))"
    if i: "i < length names" for i
  proof (intro conjI allI impI)
    from j i have st: "status_list msg ! i =
             joint_status (Fin 68) E (names ! i) (vs ! (3 * i)) (vs ! (3 * i + 1)) (vs ! (3 * i + 2))"
      by simp
    {
      assume "float_less (vs ! (3 * i)) (Fin 68)"
      then show "level (status_list msg ! i) = OK" "message (status_list msg ! i) = ''OK''"
        by (simp_all add: st joint_status_level joint_status_message)
    }
    {
      assume "float_le (Fin 68) (vs ! (3 * i)) \<and> float_less (vs ! (3 * i)) E"
      then show "level (status_list msg ! i) = WARN" "message (status_list msg ! i) = ''Hot''"
        by (auto simp add: st joint_status_level joint_status_message dest: float_le_not_less)
    }
    {
      assume "float_le (Fin 68) (vs ! (3 * i)) \<and> float_ge (vs ! (3 * i)) E"
      then show "level (status_list msg ! i) = ERROR"
        "message (status_list msg ! i) = ''HIGH JOINT TEMPERATURE : '' @ names ! i"
        by (auto simp add: st joint_status_level joint_status_message float_ge_def
            dest: float_le_not_less)
    }
    fix vs2 assume v: "3 * length names \<le> length vs2 \<and> vs2 ! (3 * i) = vs ! (3 * i)"
    have b1: "(\<lambda>keys. Inr vs2 :: string + float list) (m_keys_tocheck ?d) = Inr vs2" by simp
    have b2: "3 * length (m_joints_all_names ?d) \<le> length vs2"
      using v by (simp add: Diagnostics_new_fields)
    from publish_joint_statuses [where getListData = "\<lambda>keys. Inr vs2" and this = ?d
        and vs = vs2 and sf = sf and now = now and pub = pub, OF b1 b2]
    obtain r2 this2 msg2 where
      p2: "publish sf (\<lambda>keys. Inr vs2) now ?d pub = Inr (r2, this2, pub @ [msg2])"
      and j2: "\<forall>i<length names. status_list msg2 ! i =
             joint_status (Fin 68) E (names ! i) (vs2 ! (3 * i)) (vs2 ! (3 * i + 1)) (vs2 ! (3 * i + 2))"
      by (auto simp: Diagnostics_new_fields)
    from j2 i v have "level (status_list msg2 ! i) = level (status_list msg ! i)"
      "message (status_list msg2 ! i) = message (status_list msg ! i)"
      by (simp_all add: st joint_status_level joint_status_message)
    with p2 show "\<exists>r2 this2 msg2.
                publish sf (\<lambda>keys. Inr vs2) now ?d pub = Inr (r2, this2, pub @ [msg2])
              \<and> level (status_list msg2 ! i) = level (status_list msg ! i)
              \<and> message (status_list msg2 ! i) = message (status_list msg ! i)"
      by blast
  qed
  with p show ?thesis by blast
qed

theorem joint_classification_witness:
  "((\<lambda>keys. Inr [Fin 60, Fin (1/2), Fin 2, Fin 70, Fin (1/4), Fin 1, Fin 80, Fin 1, Fin 3] :: string + float list)
      (push_keys [''J1'', ''J2'', ''J3''] [])
     = Inr [Fin 60, Fin (1/2), Fin 2, Fin 70, Fin (1/4), Fin 1, Fin 80, Fin 1, Fin 3]
   \<and> 3 * length [''J1'', ''J2'', ''J3'']
        \<le> length [Fin 60, Fin (1/2), Fin 2, Fin 70, Fin (1/4), Fin 1, Fin 80, Fin 1, Fin 3]
   \<and> (\<exists>r this' msg.
      publish (\<lambda>t. []) (\<lambda>keys. Inr [Fin 60, Fin (1/2), Fin 2, Fin 70, Fin (1/4), Fin 1, Fin 80, Fin 1, Fin 3])
        7 ((Diagnostics_new [''J1'', ''J2'', ''J3''] (Fin 75))\<lparr>m_status := new_status\<rparr>) []
        = Inr (r, this', [] @ [msg])
     \<and> (\<forall>i<length [''J1'', ''J2'', ''J3''].
          (float_less ([Fin 60, Fin (1/2), Fin 2, Fin 70, Fin (1/4), Fin 1, Fin 80, Fin 1, Fin 3] ! (3 * i)) (Fin 68) \<longrightarrow>
             level (status_list msg ! i) = OK \<and> message (status_list msg ! i) = ''OK'')
        \<and> (float_le (Fin 68) ([Fin 60, Fin (1/2), Fin 2, Fin 70, Fin (1/4), Fin 1, Fin 80, Fin 1, Fin 3] ! (3 * i))
             \<and> float_less ([Fin 60, Fin (1/2), Fin 2, Fin 70, Fin (1/4), Fin 1, Fin 80, Fin 1, Fin 3] ! (3 * i)) (Fin 75) \<longrightarrow>
             level (status_list msg ! i) = WARN \<and> message (status_list msg ! i) = ''Hot'')
        \<and> (float_le (Fin 68) ([Fin 60, Fin (1/2), Fin 2, Fin 70, Fin (1/4), Fin 1, Fin 80, Fin 1, Fin 3] ! (3 * i))
             \<and> float_ge ([Fin 60, Fin (1/2), Fin 2, Fin 70, Fin (1/4), Fin 1, Fin 80, Fin 1, Fin 3] ! (3 * i)) (Fin 75) \<longrightarrow>
             level (status_list msg ! i) = ERROR
           \<and> message (status_list msg ! i) = ''HIGH JOINT TEMPERATURE : '' @ [''J1'', ''J2'', ''J3''] ! i)
        \<and> (\<forall>vs2. 3 * length [''J1'', ''J2'', ''J3''] \<le> length vs2
               \<and> vs2 ! (3 * i) = [Fin 60, Fin (1/2), Fin 2, Fin 70, Fin (1/4), Fin 1, Fin 80, Fin 1, Fin 3] ! (3 * i) \<longrightarrow>
             (\<exists>r2 this2 msg2.
                publish (\<lambda>t. []) (\<lambda>keys. Inr vs2) 7
                  ((Diagnostics_new [''J1'', ''J2'', ''J3''] (Fin 75))\<lparr>m_status := new_status\<rparr>) []
                  = Inr (r2, this2, [] @ [msg2])
              \<and> level (status_list msg2 ! i) = level (status_list msg ! i)
              \<and> message (status_list msg2 ! i) = message (status_list msg ! i))))))
   \<and> (\<exists>this' msg.
      publish (\<lambda>t. []) (\<lambda>keys. Inr [Fin 60, Fin (1/2), Fin 2, Fin 70, Fin (1/4), Fin 1, Fin 80, Fin 1, Fin 3])
        7 ((Diagnostics_new [''J1'', ''J2'', ''J3''] (Fin 75))\<lparr>m_status := new_status\<rparr>) []
        = Inr (False, this', [msg])
     \<and> map level (butlast (status_list msg)) = [OK, WARN, ERROR]
     \<and> map message (butlast (status_list msg)) = [''OK'', ''Hot'', ''HIGH JOINT TEMPERATURE : J3''])"
proof (intro conjI)
  show "\<exists>r this' msg.
      publish (\<lambda>t. []) (\<lambda>keys. Inr [Fin 60, Fin (1/2), Fin 2, Fin 70, Fin (1/4), Fin 1, Fin 80, Fin 1, Fin 3])
        7 ((Diagnostics_new [''J1'', ''J2'', ''J3''] (Fin 75))\<lparr>m_status := new_status\<rparr>) []
        = Inr (r, this', [] @ [msg])
     \<and> (\<forall>i<length [''J1'', ''J2'', ''J3''].
          (float_less ([Fin 60, Fin (1/2), Fin 2, Fin 70, Fin (1/4), Fin 1, Fin 80, Fin 1, Fin 3] ! (3 * i)) (Fin 68) \<longrightarrow>
             level (status_list msg ! i) = OK \<and> message (status_list msg ! i) = ''OK'')
        \<and> (float_le (Fin 68) ([Fin 60, Fin (1/2), Fin 2, Fin 70, Fin (1/4), Fin 1, Fin 80, Fin 1, Fin 3] ! (3 * i))
             \<and> float_less ([Fin 60, Fin (1/2), Fin 2, Fin 70, Fin (1/4), Fin 1, Fin 80, Fin 1, Fin 3] ! (3 * i)) (Fin 75) \<longrightarrow>
             level (status_list msg ! i) = WARN \<and> message (status_list msg ! i) = ''Hot'')
        \<and> (float_le (Fin 68) ([Fin 60, Fin (1/2), Fin 2, Fin 70, Fin (1/4), Fin 1, Fin 80, Fin 1, Fin 3] ! (3 * i))
             \<and> float_ge ([Fin 60, Fin (1/2), Fin 2, Fin 70, Fin (1/4), Fin 1, Fin 80, Fin 1, Fin 3] ! (3 * i)) (Fin 75) \<longrightarrow>
             level (status_list msg ! i) = ERROR
           \<and> message (status_list msg ! i) = ''HIGH JOINT TEMPERATURE : '' @ [''J1'', ''J2'', ''J3''] ! i)
        \<and> (\<forall>vs2. 3 * length [''J1'', ''J2'', ''J3''] \<le> length vs2
               \<and> vs2 ! (3 * i) = [Fin 60, Fin (1/2), Fin 2, Fin 70, Fin (1/4), Fin 1, Fin 80, Fin 1, Fin 3] ! (3 * i) \<longrightarrow>
             (\<exists>r2 this2 msg2.
                publish (\<lambda>t. []) (\<lambda>keys. Inr vs2) 7
                  ((Diagnostics_new [''J1'', ''J2'', ''J3''] (Fin 75))\<lparr>m_status := new_status\<rparr>) []
                  = Inr (r2, this2, [] @ [msg2])
              \<and> level (status_list msg2 ! i) = level (status_list msg ! i)
              \<and> message (status_list msg2 ! i) = message (status_list msg ! i))))"
    by (rule joint_classification [where sf = "\<lambda>t. []"
      and getListData = "\<lambda>keys. Inr [Fin 60, Fin (1/2), Fin 2, Fin 70, Fin (1/4), Fin 1, Fin 80, Fin 1, Fin 3]"
      and vs = "[Fin 60, Fin (1/2), Fin 2, Fin 70, Fin (1/4), Fin 1, Fin 80, Fin 1, Fin 3]"
      and now = 7 and names = "[''J1'', ''J2'', ''J3'']" and E = "Fin 75" and s = new_status
      and pub = "[]"]) simp_all
qed (simp_all add: run_defs)

text \<open>
  The claim as it was worded fails twice: the message of the code has a space before the
  colon, and a temperature from \<open>E\<close> on is classified \<open>OK\<close> while it is below 68 (here
  \<open>E\<close> is 50 and the temperature 60), since the test against 68 comes first.
\<close>

theorem joint_classification_counterexample:
  "(\<exists>this' msg.
      publish (\<lambda>t. ''80'') (\<lambda>keys. Inr [Fin 80, Fin (1/2), Fin 2]) 7
        (Diagnostics_new [''J1''] (Fin 75)) [] = Inr (False, this', [msg])
     \<and> float_ge (Fin 80) (Fin 75)
     \<and> level (status_list msg ! 0) = ERROR
     \<and> message (status_list msg ! 0) = ''HIGH JOINT TEMPERATURE : J1''
     \<and> message (status_list msg ! 0) \<noteq> ''HIGH JOINT TEMPERATURE: J1'')
   \<and> (\<exists>this' msg.
      publish (\<lambda>t. ''60'') (\<lambda>keys. Inr [Fin 60, Fin (1/2), Fin 2]) 7
        (Diagnostics_new [''J1''] (Fin 50)) [] = Inr (True, this', [msg])
     \<and> float_ge (Fin 60) (Fin 50)
     \<and> level (status_list msg ! 0) = OK
     \<and> level (status_list msg ! 0) \<noteq> ERROR)"
  by (simp add: run_defs)

text \<open>
  C5. The constructor builds three keys for every joint name, in the order of the names:
  the keys at \<open>3 * i\<close>, \<open>3 * i + 1\<close> and \<open>3 * i + 2\<close> are those of temperature, stiffness
  (\<^verbatim>\<open>Hardness\<close>) and current of joint \<open>i\<close>. A cycle that completes takes the values at
  these three positions of the response as temperature, stiffness and current of joint
  \<open>i\<close>; so, when the response holds for every key the value a memory has for it, each joint
  is published with the values the memory has for its own three keys.
\<close>

theorem reading_keys_and_positions:
  "length (m_keys_tocheck (Diagnostics_new names E)) = 3 * length names
   \<and> (\<forall>i<length names.
         m_keys_tocheck (Diagnostics_new names E) ! (3 * i)
           = ''Device/SubDeviceList/'' @ names ! i @ ''/Temperature/Sensor/Value''
       \<and> m_keys_tocheck (Diagnostics_new names E) ! (3 * i + 1)
           = ''Device/SubDeviceList/'' @ names ! i @ ''/Hardness/Actuator/Value''
       \<and> m_keys_tocheck (Diagnostics_new names E) ! (3 * i + 2)
           = ''Device/SubDeviceList/'' @ names ! i @ ''/ElectricCurrent/Sensor/Value'')
   \<and> (getListData (m_keys_tocheck (Diagnostics_new names E)) = Inr vs
        \<and> 3 * length names \<le> length vs \<longrightarrow>
       (\<exists>r this' msg.
          publish sf getListData now ((Diagnostics_new names E)\<lparr>m_status := s\<rparr>) pub
            = Inr (r, this', pub @ [msg])
        \<and> length (status_list msg) = length names + 1
        \<and> (\<forall>i<length names.
              hardware_id (status_list msg ! i) = names ! i
            \<and> key_values (status_list msg ! i) =
                [(''Temperature'', FloatValue (vs ! (3 * i))),
                 (''Stiffness'', FloatValue (vs ! (3 * i + 1))),
                 (''ElectricCurrent'', FloatValue (vs ! (3 * i + 2)))])))
   \<and> (\<exists>r this' msg.
          publish sf (\<lambda>keys. Inr (map memory keys)) now
            ((Diagnostics_new names E)\<lparr>m_status := s\<rparr>) pub = Inr (r, this', pub @ [msg])
        \<and> (\<forall>i<length names.
              key_values (status_list msg ! i) =
                [(''Temperature'', FloatValue
                    (memory (''Device/SubDeviceList/'' @ names ! i @ ''/Temperature/Sensor/Value''))),
                 (''Stiffness'', FloatValue
                    (memory (''Device/SubDeviceList/'' @ names ! i @ ''/Hardness/Actuator/Value''))),
                 (''ElectricCurrent'', FloatValue
                    (memory (''Device/SubDeviceList/'' @ names ! i @ ''/ElectricCurrent/Sensor/Value'')))]))"
proof (intro conjI impI)
  let ?d = "(Diagnostics_new names E)\<lparr>m_status := s\<rparr>"
  have k: "m_keys_tocheck (Diagnostics_new names E) = push_keys names []"
    by (simp add: Diagnostics_new_def)
  show "length (m_keys_tocheck (Diagnostics_new names E)) = 3 * length names"
    by (simp add: k push_keys_length)
  show "\<forall>i<length names.
         m_keys_tocheck (Diagnostics_new names E) ! (3 * i)
           = ''Device/SubDeviceList/'' @ names ! i @ ''/Temperature/Sensor/Value''
       \<and> m_keys_tocheck (Diagnostics_new names E) ! (3 * i + 1)
           = ''Device/SubDeviceList/'' @ names ! i @ ''/Hardness/Actuator/Value''
       \<and> m_keys_tocheck (Diagnostics_new names E) ! (3 * i + 2)
           = ''Device/SubDeviceList/'' @ names ! i @ ''/ElectricCurrent/Sensor/Value''"
    unfolding k using push_keys_nth by blast
  have general: "\<exists>r this' msg.
          publish sf g now ?d pub = Inr (r, this', pub @ [msg])
        \<and> length (status_list msg) = length names + 1
        \<and> (\<forall>i<length names.
              hardware_id (status_list msg ! i) = names ! i
            \<and> key_values (status_list msg ! i) =
                [(''Temperature'', FloatValue (ws ! (3 * i))),
                 (''Stiffness'', FloatValue (ws ! (3 * i + 1))),
                 (''ElectricCurrent'', FloatValue (ws ! (3 * i + 2)))])"
    if a: "g (push_keys names []) = Inr ws" "3 * length names \<le> length ws" for g ws
  proof -
    have a1: "g (m_keys_tocheck ?d) = Inr ws" and a2: "3 * length (m_joints_all_names ?d) \<le> length ws"
      using a by (simp_all add: Diagnostics_new_fields)
    from publish_joint_statuses [where getListData = g and this = ?d and vs = ws and sf = sf
      and now = now and pub = pub, OF a1 a2] obtain r this' msg where
      p: "publish sf g now ?d pub = Inr (r, this', pub @ [msg])"
      and len: "length (status_list msg) = length names + 1"
      and m: "\<forall>i<length names. status_list msg ! i =
           joint_status (Fin 68) E (names ! i) (ws ! (3 * i)) (ws ! (3 * i + 1)) (ws ! (3 * i + 2))"
      unfolding Diagnostics_new_fields by blast
    from m have "\<forall>i<length names.
              hardware_id (status_list msg ! i) = names ! i
            \<and> key_values (status_list msg ! i) =
                [(''Temperature'', FloatValue (ws ! (3 * i))),
                 (''Stiffness'', FloatValue (ws ! (3 * i + 1))),
                 (''ElectricCurrent'', FloatValue (ws ! (3 * i + 2)))]"
      by (simp add: joint_status_ids joint_status_key_values)
    with p len show ?thesis by blast
  qed
  {
    assume "getListData (m_keys_tocheck (Diagnostics_new names E)) = Inr vs
        \<and> 3 * length names \<le> length vs"
    then have "getListData (push_keys names []) = Inr vs" "3 * length names \<le> length vs"
      by (simp_all add: k)
    from general [of getListData vs, OF this]
    show "\<exists>r this' msg.
          publish sf getListData now ?d pub = Inr (r, this', pub @ [msg])
        \<and> length (status_list msg) = length names + 1
        \<and> (\<forall>i<length names.
              hardware_id (status_list msg ! i) = names ! i
            \<and> key_values (status_list msg ! i) =
                [(''Temperature'', FloatValue (vs ! (3 * i))),
                 (''Stiffness'', FloatValue (vs ! (3 * i + 1))),
                 (''ElectricCurrent'', FloatValue (vs ! (3 * i + 2)))])" .
  }
  have "(\<lambda>keys. Inr (map memory keys) :: string + float list) (push_keys names [])
          = Inr (map memory (push_keys names []))"
    "3 * length names \<le> length (map memory (push_keys names []))"
    by (simp_all add: push_keys_length)
  from general [of "\<lambda>keys. Inr (map memory keys)" "map memory (push_keys names [])", OF this]
  obtain r this' msg where
    p: "publish sf (\<lambda>keys. Inr (map memory keys)) now ?d pub = Inr (r, this', pub @ [msg])"
    and kv: "\<forall>i<length names. key_values (status_list msg ! i) =
                [(''Temperature'', FloatValue (map memory (push_keys names []) ! (3 * i))),
                 (''Stiffness'', FloatValue (map memory (push_keys names []) ! (3 * i + 1))),
                 (''ElectricCurrent'', FloatValue (map memory (push_keys names []) ! (3 * i + 2)))]"
    by blast
  have "\<forall>i<length names. key_values (status_list msg ! i) =
                [(''Temperature'', FloatValue
                    (memory (''Device/SubDeviceList/'' @ names ! i @ ''/Temperature/Sensor/Value''))),
                 (''Stiffness'', FloatValue
                    (memory (''Device/SubDeviceList/'' @ names ! i @ ''/Hardness/Actuator/Value''))),
                 (''ElectricCurrent'', FloatValue
                    (memory (''Device/SubDeviceList/'' @ names ! i @ ''/ElectricCurrent/Sensor/Value'')))]"
  proof (intro allI impI)
    fix i assume i: "i < length names"
    then have "3 * i < length (push_keys names [])" "3 * i + 1 < length (push_keys names [])"
      "3 * i + 2 < length (push_keys names [])"
      by (simp_all add: push_keys_length)
    then show "key_values (status_list msg ! i) =
                [(''Temperature'', FloatValue
                    (memory (''Device/SubDeviceList/'' @ names ! i @ ''/Temperature/Sensor/Value''))),
                 (''Stiffness'', FloatValue
                    (memory (''Device/SubDeviceList/'' @ names ! i @ ''/Hardness/Actuator/Value''))),
                 (''ElectricCurrent'', FloatValue
                    (memory (''Device/SubDeviceList/'' @ names ! i @ ''/ElectricCurrent/Sensor/Value'')))]"
      using kv i push_keys_nth [OF i] by (simp only: nth_map)
  qed
  with p show "\<exists>r this' msg.
          publish sf (\<lambda>keys. Inr (map memory keys)) now ?d pub = Inr (r, this', pub @ [msg])
        \<and> (\<forall>i<length names.
              key_values (status_list msg ! i) =
                [(''Temperature'', FloatValue
                    (memory (''Device/SubDeviceList/'' @ names ! i @ ''/Temperature/Sensor/Value''))),
                 (''Stiffness'', FloatValue
                    (memory (''Device/SubDeviceList/'' @ names ! i @ ''/Hardness/Actuator/Value''))),
                 (''ElectricCurrent'', FloatValue
                    (memory (''Device/SubDeviceList/'' @ names ! i @ ''/ElectricCurrent/Sensor/Value'')))])"
    by blast
qed

theorem reading_keys_and_positions_witness:
  "length (m_keys_tocheck (Diagnostics_new [''HeadYaw'', ''LHand''] (Fin 75)))
     = 3 * length [''HeadYaw'', ''LHand'']
   \<and> m_keys_tocheck (Diagnostics_new [''HeadYaw'', ''LHand''] (Fin 75)) =
       [''Device/SubDeviceList/HeadYaw/Temperature/Sensor/Value'',
        ''Device/SubDeviceList/HeadYaw/Hardness/Actuator/Value'',
        ''Device/SubDeviceList/HeadYaw/ElectricCurrent/Sensor/Value'',
        ''Device/SubDeviceList/LHand/Temperature/Sensor/Value'',
        ''Device/SubDeviceList/LHand/Hardness/Actuator/Value'',
        ''Device/SubDeviceList/LHand/ElectricCurrent/Sensor/Value'']
   \<and> (\<lambda>keys. Inr [Fin 40, Fin (1/2), Fin 2, Fin 70, Fin (1/4), Fin 1] :: string + float list)
        (m_keys_tocheck (Diagnostics_new [''HeadYaw'', ''LHand''] (Fin 75)))
       = Inr [Fin 40, Fin (1/2), Fin 2, Fin 70, Fin (1/4), Fin 1]
   \<and> 3 * length [''HeadYaw'', ''LHand'']
        \<le> length [Fin 40, Fin (1/2), Fin 2, Fin 70, Fin (1/4), Fin 1]
   \<and> (\<exists>r this' msg.
          publish (\<lambda>t. []) (\<lambda>keys. Inr [Fin 40, Fin (1/2), Fin 2, Fin 70, Fin (1/4), Fin 1]) 7
            ((Diagnostics_new [''HeadYaw'', ''LHand''] (Fin 75))\<lparr>m_status := new_status\<rparr>) []
            = Inr (r, this', [] @ [msg])
        \<and> length (status_list msg) = length [''HeadYaw'', ''LHand''] + 1
        \<and> (\<forall>i<length [''HeadYaw'', ''LHand''].
              hardware_id (status_list msg ! i) = [''HeadYaw'', ''LHand''] ! i
            \<and> key_values (status_list msg ! i) =
                [(''Temperature'', FloatValue ([Fin 40, Fin (1/2), Fin 2, Fin 70, Fin (1/4), Fin 1] ! (3 * i))),
                 (''Stiffness'', FloatValue ([Fin 40, Fin (1/2), Fin 2, Fin 70, Fin (1/4), Fin 1] ! (3 * i + 1))),
                 (''ElectricCurrent'', FloatValue ([Fin 40, Fin (1/2), Fin 2, Fin 70, Fin (1/4), Fin 1] ! (3 * i + 2)))]))
   \<and> (\<exists>this' msg.
          publish (\<lambda>t. []) (\<lambda>keys. Inr [Fin 40, Fin (1/2), Fin 2, Fin 70, Fin (1/4), Fin 1]) 7
            ((Diagnostics_new [''HeadYaw'', ''LHand''] (Fin 75))\<lparr>m_status := new_status\<rparr>) []
            = Inr (True, this', [msg])
        \<and> map hardware_id (butlast (status_list msg)) = [''HeadYaw'', ''LHand'']
        \<and> map key_values (butlast (status_list msg)) =
             [[(''Temperature'', FloatValue (Fin 40)), (''Stiffness'', FloatValue (Fin (1/2))),
               (''ElectricCurrent'', FloatValue (Fin 2))],
              [(''Temperature'', FloatValue (Fin 70)), (''Stiffness'', FloatValue (Fin (1/4))),
               (''ElectricCurrent'', FloatValue (Fin 1))]])"
proof -
  note t = reading_keys_and_positions [where names = "[''HeadYaw'', ''LHand'']" and E = "Fin 75"
      and getListData = "\<lambda>keys. Inr [Fin 40, Fin (1/2), Fin 2, Fin 70, Fin (1/4), Fin 1]"
      and vs = "[Fin 40, Fin (1/2), Fin 2, Fin 70, Fin (1/4), Fin 1]"
      and sf = "\<lambda>t. []" and now = 7 and s = new_status and pub = "[]"]
  have h: "(\<lambda>keys. Inr [Fin 40, Fin (1/2), Fin 2, Fin 70, Fin (1/4), Fin 1] :: string + float list)
        (m_keys_tocheck (Diagnostics_new [''HeadYaw'', ''LHand''] (Fin 75)))
       = Inr [Fin 40, Fin (1/2), Fin 2, Fin 70, Fin (1/4), Fin 1]"
    "3 * length [''HeadYaw'', ''LHand'']
        \<le> length [Fin 40, Fin (1/2), Fin 2, Fin 70, Fin (1/4), Fin 1]"
    by simp_all
  note c1 = t [THEN conjunct1]
  note c3 = t [THEN conjunct2, THEN conjunct2, THEN conjunct1, THEN mp, OF conjI [OF h]]
  have k: "m_keys_tocheck (Diagnostics_new [''HeadYaw'', ''LHand''] (Fin 75)) =
       [''Device/SubDeviceList/HeadYaw/Temperature/Sensor/Value'',
        ''Device/SubDeviceList/HeadYaw/Hardness/Actuator/Value'',
        ''Device/SubDeviceList/HeadYaw/ElectricCurrent/Sensor/Value'',
        ''Device/SubDeviceList/LHand/Temperature/Sensor/Value'',
        ''Device/SubDeviceList/LHand/Hardness/Actuator/Value'',
        ''Device/SubDeviceList/LHand/ElectricCurrent/Sensor/Value'']"
    by (simp add: Diagnostics_new_def)
  have run: "\<exists>this' msg.
          publish (\<lambda>t. []) (\<lambda>keys. Inr [Fin 40, Fin (1/2), Fin 2, Fin 70, Fin (1/4), Fin 1]) 7
            ((Diagnostics_new [''HeadYaw'', ''LHand''] (Fin 75))\<lparr>m_status := new_status\<rparr>) []
            = Inr (True, this', [msg])
        \<and> map hardware_id (butlast (status_list msg)) = [''HeadYaw'', ''LHand'']
        \<and> map key_values (butlast (status_list msg)) =
             [[(''Temperature'', FloatValue (Fin 40)), (''Stiffness'', FloatValue (Fin (1/2))),
               (''ElectricCurrent'', FloatValue (Fin 2))],
              [(''Temperature'', FloatValue (Fin 70)), (''Stiffness'', FloatValue (Fin (1/4))),
               (''ElectricCurrent'', FloatValue (Fin 1))]]"
    by (simp add: run_defs)
  show ?thesis
    by (intro conjI) (rule c1 k h c3 run)+
qed

text \<open>
  C7. In a cycle that completes, the aggregate status reports as \<^verbatim>\<open>Lowest Stiffness\<close> the
  minimum, taken with \<^verbatim>\<open>std::min\<close> from the initial value 1, of the stiffness of all
  joints, and as \<^verbatim>\<open>Lowest Stiffness without Hands\<close> the same minimum over exactly the
  joints whose name does not contain \<^verbatim>\<open>Hand\<close>. With the joints LHand (stiffness 0.1) and
  RShoulder (stiffness 0.5) the first is 0.1 and the second 0.5.
\<close>

theorem lowest_stiffness_statistics:
  assumes "getListData (m_keys_tocheck this) = Inr vs"
    and "3 * length (m_joints_all_names this) \<le> length vs"
  shows "\<exists>r this' msg. publish sf getListData now this pub = Inr (r, this', pub @ [msg])
     \<and> map_of (key_values (last (status_list msg))) ''Lowest Stiffness'' =
         Some (FloatValue (foldl std_min (Fin 1)
           (map (\<lambda>i. vs ! (3 * i + 1)) [0..<length (m_joints_all_names this)])))
     \<and> map_of (key_values (last (status_list msg))) ''Lowest Stiffness without Hands'' =
         Some (FloatValue (foldl std_min (Fin 1)
           (map (\<lambda>i. vs ! (3 * i + 1))
              (filter (\<lambda>i. \<not> (\<exists>pre post. m_joints_all_names this ! i = pre @ ''Hand'' @ post))
                 [0..<length (m_joints_all_names this)]))))"
proof -
  from publish_cycle [where getListData = getListData and this = this and vs = vs and sf = sf
      and now = now and pub = pub, OF assms] obtain l' where
    p: "publish sf getListData now this pub =
       Inr (\<not> ERROR \<le>s level (running l'), this\<lparr>m_status := running l'\<rparr>,
            pub @ [\<lparr>stamp = now, status_list = msg_status l' @ [aggregated_status l']\<rparr>])"
    and loop: "joints_loop sf (m_temperature_warn_level this) (m_temperature_error_level this) vs
       (m_joints_all_names this) (initial_locals (m_status this)) = Inr l'"
    by blast
  have a: "minStiffness l' = foldl std_min (Fin 1)
           (map (\<lambda>i. vs ! (3 * i + 1)) [0..<length (m_joints_all_names this)])"
    using joints_loop_minStiffness [OF loop] by (simp add: initial_locals_fields)
  have b: "minStiffnessWoHands l' = foldl std_min (Fin 1)
           (map (\<lambda>i. vs ! (3 * i + 1))
              (filter (\<lambda>i. \<not> (\<exists>pre post. m_joints_all_names this ! i = pre @ ''Hand'' @ post))
                 [0..<length (m_joints_all_names this)]))"
    using joints_loop_minStiffnessWoHands [OF loop]
    by (simp add: initial_locals_fields find_str_None_iff)
  have "map_of (key_values (aggregated_status l')) ''Lowest Stiffness''
          = Some (FloatValue (minStiffness l'))"
    "map_of (key_values (aggregated_status l')) ''Lowest Stiffness without Hands''
          = Some (FloatValue (minStiffnessWoHands l'))"
    by (simp_all add: aggregated_status_fields)
  with p a b show ?thesis by simp
qed

theorem lowest_stiffness_statistics_witness:
  "(\<lambda>keys. Inr [Fin 40, Fin (1/10), Fin 1, Fin 45, Fin (1/2), Fin 2] :: string + float list)
      (m_keys_tocheck (Diagnostics_new [''LHand'', ''RShoulder''] (Fin 75)))
     = Inr [Fin 40, Fin (1/10), Fin 1, Fin 45, Fin (1/2), Fin 2]
   \<and> 3 * length (m_joints_all_names (Diagnostics_new [''LHand'', ''RShoulder''] (Fin 75)))
       \<le> length [Fin 40, Fin (1/10), Fin 1, Fin 45, Fin (1/2), Fin 2]
   \<and> (\<exists>r this' msg.
         publish (\<lambda>t. []) (\<lambda>keys. Inr [Fin 40, Fin (1/10), Fin 1, Fin 45, Fin (1/2), Fin 2]) 7
           (Diagnostics_new [''LHand'', ''RShoulder''] (Fin 75)) [] = Inr (r, this', [] @ [msg])
     \<and> map_of (key_values (last (status_list msg))) ''Lowest Stiffness'' =
         Some (FloatValue (foldl std_min (Fin 1)
           (map (\<lambda>i. [Fin 40, Fin (1/10), Fin 1, Fin 45, Fin (1/2), Fin 2] ! (3 * i + 1))
              [0..<length (m_joints_all_names (Diagnostics_new [''LHand'', ''RShoulder''] (Fin 75)))])))
     \<and> map_of (key_values (last (status_list msg))) ''Lowest Stiffness without Hands'' =
         Some (FloatValue (foldl std_min (Fin 1)
           (map (\<lambda>i. [Fin 40, Fin (1/10), Fin 1, Fin 45, Fin (1/2), Fin 2] ! (3 * i + 1))
              (filter (\<lambda>i. \<not> (\<exists>pre post.
                          m_joints_all_names (Diagnostics_new [''LHand'', ''RShoulder''] (Fin 75)) ! i
                            = pre @ ''Hand'' @ post))
                 [0..<length (m_joints_all_names (Diagnostics_new [''LHand'', ''RShoulder''] (Fin 75)))])))))
   \<and> (\<exists>this' msg.
         publish (\<lambda>t. []) (\<lambda>keys. Inr [Fin 40, Fin (1/10), Fin 1, Fin 45, Fin (1/2), Fin 2]) 7
           (Diagnostics_new [''LHand'', ''RShoulder''] (Fin 75)) [] = Inr (True, this', [msg])
     \<and> map_of (key_values (last (status_list msg))) ''Lowest Stiffness''
          = Some (FloatValue (Fin (1/10)))
     \<and> map_of (key_values (last (status_list msg))) ''Lowest Stiffness without Hands''
          = Some (FloatValue (Fin (1/2))))"
proof -
  have h: "(\<lambda>keys. Inr [Fin 40, Fin (1/10), Fin 1, Fin 45, Fin (1/2), Fin 2] :: string + float list)
      (m_keys_tocheck (Diagnostics_new [''LHand'', ''RShoulder''] (Fin 75)))
     = Inr [Fin 40, Fin (1/10), Fin 1, Fin 45, Fin (1/2), Fin 2]"
    "3 * length (m_joints_all_names (Diagnostics_new [''LHand'', ''RShoulder''] (Fin 75)))
       \<le> length [Fin 40, Fin (1/10), Fin 1, Fin 45, Fin (1/2), Fin 2]"
    by (simp_all add: Diagnostics_new_def)
  note c = lowest_stiffness_statistics [where sf = "\<lambda>t. []"
      and getListData = "\<lambda>keys. Inr [Fin 40, Fin (1/10), Fin 1, Fin 45, Fin (1/2), Fin 2]"
      and vs = "[Fin 40, Fin (1/10), Fin 1, Fin 45, Fin (1/2), Fin 2]"
      and now = 7 and this = "Diagnostics_new [''LHand'', ''RShoulder''] (Fin 75)" and pub = "[]",
      OF h]
  have run: "\<exists>this' msg.
         publish (\<lambda>t. []) (\<lambda>keys. Inr [Fin 40, Fin (1/10), Fin 1, Fin 45, Fin (1/2), Fin 2]) 7
           (Diagnostics_new [''LHand'', ''RShoulder''] (Fin 75)) [] = Inr (True, this', [msg])
     \<and> map_of (key_values (last (status_list msg))) ''Lowest Stiffness''
          = Some (FloatValue (Fin (1/10)))
     \<and> map_of (key_values (last (status_list msg))) ''Lowest Stiffness without Hands''
          = Some (FloatValue (Fin (1/2)))"
    by (simp add: run_defs)
  show ?thesis
    by (intro conjI) (rule h c run)+
qed

text \<open>
  C8, as the code has it. \<open>getStatusMsg\<close> returns the message of the running status.
  After construction and after a cycle whose read raised it is \<^verbatim>\<open>OK\<close>. After a cycle that
  completes it is the message of the first joint status that has the level of the aggregate
  status (\<^verbatim>\<open>OK\<close> when there is no joint): \<^verbatim>\<open>OK\<close> when that level is \<open>OK\<close>, \<^verbatim>\<open>Hot\<close> when
  it is \<open>WARN\<close>, and \<^verbatim>\<open>HIGH JOINT TEMPERATURE : \<close> followed by the name of the first joint
  at \<open>ERROR\<close> when it is \<open>ERROR\<close>.
\<close>

theorem status_query:
  "getStatusMsg this = message (m_status this)
   \<and> getStatusMsg (Diagnostics_new names E) = ''OK''
   \<and> (getListData (m_keys_tocheck this) = Inl x \<longrightarrow>
        (\<exists>this'. publish sf getListData now this pub = Inr (False, this', pub)
           \<and> getStatusMsg this' = ''OK''))
   \<and> (getListData (m_keys_tocheck this) = Inr vs
        \<and> 3 * length (m_joints_all_names this) \<le> length vs \<longrightarrow>
        (\<exists>r this' msg. publish sf getListData now this pub = Inr (r, this', pub @ [msg])
           \<and> getStatusMsg this' =
               (case find (\<lambda>st. level st = level (last (status_list msg)))
                       (butlast (status_list msg)) of
                  None \<Rightarrow> ''OK'' | Some st \<Rightarrow> message st)
           \<and> (level (last (status_list msg)) = OK \<longrightarrow> getStatusMsg this' = ''OK'')
           \<and> (level (last (status_list msg)) = WARN \<longrightarrow> getStatusMsg this' = ''Hot'')
           \<and> (level (last (status_list msg)) = ERROR \<longrightarrow>
                (\<exists>i<length (m_joints_all_names this).
                    level (status_list msg ! i) = ERROR
                  \<and> (\<forall>j<i. level (status_list msg ! j) \<noteq> ERROR)
                  \<and> getStatusMsg this' =
                      ''HIGH JOINT TEMPERATURE : '' @ m_joints_all_names this ! i))))"
proof (intro conjI impI)
  show "getStatusMsg this = message (m_status this)" by (simp add: getStatusMsg_def)
  show "getStatusMsg (Diagnostics_new names E) = ''OK''"
    by (simp add: getStatusMsg_def Diagnostics_new_def)
next
  assume "getListData (m_keys_tocheck this) = Inl x"
  then show "\<exists>this'. publish sf getListData now this pub = Inr (False, this', pub)
           \<and> getStatusMsg this' = ''OK''"
    by (simp add: publish_read_failed getStatusMsg_def)
next
  assume a: "getListData (m_keys_tocheck this) = Inr vs
        \<and> 3 * length (m_joints_all_names this) \<le> length vs"
  then have a1: "getListData (m_keys_tocheck this) = Inr vs"
    and a2: "3 * length (m_joints_all_names this) \<le> length vs" by simp_all
  from publish_cycle [where getListData = getListData and this = this and vs = vs and sf = sf
      and now = now and pub = pub, OF a1 a2] obtain l' where
    p: "publish sf getListData now this pub =
       Inr (\<not> ERROR \<le>s level (running l'), this\<lparr>m_status := running l'\<rparr>,
            pub @ [\<lparr>stamp = now, status_list = msg_status l' @ [aggregated_status l']\<rparr>])"
    and m: "msg_status l' =
           map (\<lambda>i. joint_status (m_temperature_warn_level this) (m_temperature_error_level this)
                      (m_joints_all_names this ! i) (vs ! (3 * i)) (vs ! (3 * i + 1)) (vs ! (3 * i + 2)))
               [0..<length (m_joints_all_names this)]"
    and ru: "running l' = foldl setAggregatedMessage (running (initial_locals (m_status this))) (msg_status l')"
    and ml: "max_level l' = foldl level_max OK (map level (msg_status l'))"
    by blast
  define sts where "sts = msg_status l'"
  define r0 where "r0 = running (initial_locals (m_status this))"
  define F where "F = foldl setAggregatedMessage r0 sts"
  have r0: "level r0 = OK" "message r0 = ''OK''" by (simp_all add: r0_def initial_locals_fields)
  have lenS: "length sts = length (m_joints_all_names this)" by (simp add: sts_def m)
  have nthS: "message (sts ! i) =
     (if level (sts ! i) = OK then ''OK'' else if level (sts ! i) = WARN then ''Hot''
      else ''HIGH JOINT TEMPERATURE : '' @ m_joints_all_names this ! i)"
    if "i < length sts" for i
    using that by (simp add: sts_def m joint_status_message_by_level)
  have M: "level (aggregated_status l') = level F"
    by (simp add: aggregated_status_fields ml F_def level_foldl_setAggregatedMessage r0 sts_def)
  have G: "getStatusMsg (this\<lparr>m_status := running l'\<rparr>) = message F"
    by (simp add: getStatusMsg_def ru F_def r0_def sts_def)
  note first = foldl_setAggregatedMessage_first [of r0 sts, folded F_def]
  have idx: "\<exists>i<length sts. level (sts ! i) = level F \<and> (\<forall>j<i. level (sts ! j) \<noteq> level F)
       \<and> message F = message (sts ! i)" if "level F \<noteq> OK"
  proof -
    from first that r0 obtain st where "find (\<lambda>st. level st = level F) sts = Some st"
      and ms: "message F = message st" by auto
    then obtain i where "i < length sts" "level (sts ! i) = level F" "st = sts ! i"
      "\<forall>j<i. level (sts ! j) \<noteq> level F"
      unfolding find_Some_iff by blast
    with ms show ?thesis by blast
  qed
  have c1: "message F = (case find (\<lambda>st. level st = level F) sts of
                  None \<Rightarrow> ''OK'' | Some st \<Rightarrow> message st)"
  proof (cases "level F = OK")
    case True
    with first r0 have "message F = ''OK''" by simp
    moreover have "message st = ''OK''" if "find (\<lambda>st. level st = level F) sts = Some st" for st
    proof -
      from that obtain i where "i < length sts" "level (sts ! i) = level F" "st = sts ! i"
        unfolding find_Some_iff by blast
      with True nthS [of i] show ?thesis by simp
    qed
    ultimately show ?thesis by (simp split: option.splits)
  next
    case False
    with first r0 show ?thesis by auto
  qed
  have c2: "level F = OK \<Longrightarrow> message F = ''OK''"
    using first r0 by simp
  have c3: "message F = ''Hot''" if w: "level F = WARN"
  proof -
    from w have "level F \<noteq> OK" using OK_le_levels(8) by simp
    from idx [OF this] obtain i where "i < length sts" "level (sts ! i) = level F"
      "message F = message (sts ! i)" by blast
    with w nthS [of i] OK_le_levels(8) show ?thesis by simp
  qed
  have c4: "\<exists>i<length (m_joints_all_names this).
                    level ((sts @ [aggregated_status l']) ! i) = ERROR
                  \<and> (\<forall>j<i. level ((sts @ [aggregated_status l']) ! j) \<noteq> ERROR)
                  \<and> message F = ''HIGH JOINT TEMPERATURE : '' @ m_joints_all_names this ! i"
    if e: "level F = ERROR"
  proof -
    from e have "level F \<noteq> OK" using OK_le_levels(9) by simp
    from idx [OF this] obtain i where i: "i < length sts" "level (sts ! i) = level F"
      "\<forall>j<i. level (sts ! j) \<noteq> level F" "message F = message (sts ! i)" by blast
    with e nthS [of i] OK_le_levels(9,10)
    have "message F = ''HIGH JOINT TEMPERATURE : '' @ m_joints_all_names this ! i" by simp
    moreover from i e have "level ((sts @ [aggregated_status l']) ! i) = ERROR"
      "\<forall>j<i. level ((sts @ [aggregated_status l']) ! j) \<noteq> ERROR"
      by (simp_all add: nth_append)
    ultimately show ?thesis using i(1) lenS by auto
  qed
  show "\<exists>r this' msg. publish sf getListData now this pub = Inr (r, this', pub @ [msg])
           \<and> getStatusMsg this' =
               (case find (\<lambda>st. level st = level (last (status_list msg)))
                       (butlast (status_list msg)) of
                  None \<Rightarrow> ''OK'' | Some st \<Rightarrow> message st)
           \<and> (level (last (status_list msg)) = OK \<longrightarrow> getStatusMsg this' = ''OK'')
           \<and> (level (last (status_list msg)) = WARN \<longrightarrow> getStatusMsg this' = ''Hot'')
           \<and> (level (last (status_list msg)) = ERROR \<longrightarrow>
                (\<exists>i<length (m_joints_all_names this).
                    level (status_list msg ! i) = ERROR
                  \<and> (\<forall>j<i. level (status_list msg ! j) \<noteq> ERROR)
                  \<and> getStatusMsg this' =
                      ''HIGH JOINT TEMPERATURE : '' @ m_joints_all_names this ! i))"
    apply (rule exI [of _ "\<not> ERROR \<le>s level (running l')"])
    apply (rule exI [of _ "this\<lparr>m_status := running l'\<rparr>"])
    apply (rule exI [of _ "\<lparr>stamp = now, status_list = sts @ [aggregated_status l']\<rparr>"])
    using p c1 c2 c3 c4 by (simp add: G M sts_def [symmetric])
qed

theorem status_query_witness:
  "getStatusMsg (Diagnostics_new [''J1'', ''J2''] (Fin 75))
     = message (m_status (Diagnostics_new [''J1'', ''J2''] (Fin 75)))
   \<and> getStatusMsg (Diagnostics_new [''J1'', ''J2''] (Fin 75)) = ''OK''
   \<and> (\<lambda>keys. Inl ''ALMemory is not reachable'' :: string + float list)
        (m_keys_tocheck (Diagnostics_new [''J1'', ''J2''] (Fin 75))) = Inl ''ALMemory is not reachable''
   \<and> (\<exists>this'. publish (\<lambda>t. []) (\<lambda>keys. Inl ''ALMemory is not reachable'') 7
                 (Diagnostics_new [''J1'', ''J2''] (Fin 75)) [] = Inr (False, this', [])
           \<and> getStatusMsg this' = ''OK'')
   \<and> (\<lambda>keys. Inr [Fin 60, Fin (1/2), Fin 2, Fin 80, Fin (1/4), Fin 1] :: string + float list)
        (m_keys_tocheck (Diagnostics_new [''J1'', ''J2''] (Fin 75)))
       = Inr [Fin 60, Fin (1/2), Fin 2, Fin 80, Fin (1/4), Fin 1]
   \<and> 3 * length (m_joints_all_names (Diagnostics_new [''J1'', ''J2''] (Fin 75)))
        \<le> length [Fin 60, Fin (1/2), Fin 2, Fin 80, Fin (1/4), Fin 1]
   \<and> (\<exists>r this' msg.
         publish (\<lambda>t. []) (\<lambda>keys. Inr [Fin 60, Fin (1/2), Fin 2, Fin 80, Fin (1/4), Fin 1]) 7
           (Diagnostics_new [''J1'', ''J2''] (Fin 75)) [] = Inr (r, this', [] @ [msg])
           \<and> getStatusMsg this' =
               (case find (\<lambda>st. level st = level (last (status_list msg)))
                       (butlast (status_list msg)) of
                  None \<Rightarrow> ''OK'' | Some st \<Rightarrow> message st)
           \<and> (level (last (status_list msg)) = OK \<longrightarrow> getStatusMsg this' = ''OK'')
           \<and> (level (last (status_list msg)) = WARN \<longrightarrow> getStatusMsg this' = ''Hot'')
           \<and> (level (last (status_list msg)) = ERROR \<longrightarrow>
                (\<exists>i<length (m_joints_all_names (Diagnostics_new [''J1'', ''J2''] (Fin 75))).
                    level (status_list msg ! i) = ERROR
                  \<and> (\<forall>j<i. level (status_list msg ! j) \<noteq> ERROR)
                  \<and> getStatusMsg this' =
                      ''HIGH JOINT TEMPERATURE : ''
                        @ m_joints_all_names (Diagnostics_new [''J1'', ''J2''] (Fin 75)) ! i)))
   \<and> (\<exists>this' msg.
         publish (\<lambda>t. []) (\<lambda>keys. Inr [Fin 60, Fin (1/2), Fin 2, Fin 80, Fin (1/4), Fin 1]) 7
           (Diagnostics_new [''J1'', ''J2''] (Fin 75)) [] = Inr (False, this', [msg])
           \<and> level (last (status_list msg)) = ERROR
           \<and> getStatusMsg this' = ''HIGH JOINT TEMPERATURE : J2'')"
proof -
  note tf = status_query [where this = "Diagnostics_new [''J1'', ''J2''] (Fin 75)"
      and names = "[''J1'', ''J2'']" and E = "Fin 75"
      and getListData = "\<lambda>keys. Inl ''ALMemory is not reachable''"
      and x = "''ALMemory is not reachable''"
      and sf = "\<lambda>t. []" and now = 7 and pub = "[]"]
  note tk = status_query [where this = "Diagnostics_new [''J1'', ''J2''] (Fin 75)"
      and getListData = "\<lambda>keys. Inr [Fin 60, Fin (1/2), Fin 2, Fin 80, Fin (1/4), Fin 1]"
      and vs = "[Fin 60, Fin (1/2), Fin 2, Fin 80, Fin (1/4), Fin 1]"
      and sf = "\<lambda>t. []" and now = 7 and pub = "[]"]
  have hf: "(\<lambda>keys. Inl ''ALMemory is not reachable'' :: string + float list)
        (m_keys_tocheck (Diagnostics_new [''J1'', ''J2''] (Fin 75))) = Inl ''ALMemory is not reachable''"
    by simp
  have hk: "(\<lambda>keys. Inr [Fin 60, Fin (1/2), Fin 2, Fin 80, Fin (1/4), Fin 1] :: string + float list)
        (m_keys_tocheck (Diagnostics_new [''J1'', ''J2''] (Fin 75)))
       = Inr [Fin 60, Fin (1/2), Fin 2, Fin 80, Fin (1/4), Fin 1]"
    "3 * length (m_joints_all_names (Diagnostics_new [''J1'', ''J2''] (Fin 75)))
        \<le> length [Fin 60, Fin (1/2), Fin 2, Fin 80, Fin (1/4), Fin 1]"
    by (simp_all add: Diagnostics_new_def)
  note c1 = tf [THEN conjunct1]
  note c2 = tf [THEN conjunct2, THEN conjunct1]
  note c3 = tf [THEN conjunct2, THEN conjunct2, THEN conjunct1, THEN mp, OF hf]
  note c4 = tk [THEN conjunct2, THEN conjunct2, THEN conjunct2, THEN mp, OF conjI [OF hk]]
  have run: "\<exists>this' msg.
         publish (\<lambda>t. []) (\<lambda>keys. Inr [Fin 60, Fin (1/2), Fin 2, Fin 80, Fin (1/4), Fin 1]) 7
           (Diagnostics_new [''J1'', ''J2''] (Fin 75)) [] = Inr (False, this', [msg])
           \<and> level (last (status_list msg)) = ERROR
           \<and> getStatusMsg this' = ''HIGH JOINT TEMPERATURE : J2''"
    by (simp add: run_defs)
  show ?thesis
    by (intro conjI) (rule c1 c2 hf c3 hk c4 run)+
qed

text \<open>
  The claim as it was worded fails: after a cycle whose aggregate message is \<^verbatim>\<open>WARN\<close> the
  accessor returns \<^verbatim>\<open>Hot\<close>, and after one whose aggregate message is \<^verbatim>\<open>ERROR\<close> it returns
  the message of the joint; \<open>setAggregatedMessage\<close> copies the message of a joint status,
  and \<open>setMessageFromStatus\<close> is applied to the aggregate status only.
\<close>

theorem status_query_counterexample:
  "(\<exists>this' msg.
      publish (\<lambda>t. ''70'') (\<lambda>keys. Inr [Fin 70, Fin (1/2), Fin 2, Fin 60, Fin (3/10), Fin 1]) 7
        (Diagnostics_new [''J1'', ''J2''] (Fin 75)) [] = Inr (True, this', [msg])
    \<and> message (last (status_list msg)) = ''WARN''
    \<and> getStatusMsg this' = ''Hot''
    \<and> getStatusMsg this' \<noteq> message (last (status_list msg)))
   \<and> (\<exists>this' msg.
      publish (\<lambda>t. ''80'') (\<lambda>keys. Inr [Fin 80, Fin (1/2), Fin 2, Fin 60, Fin (3/10), Fin 1]) 7
        (Diagnostics_new [''J1'', ''J2''] (Fin 75)) [] = Inr (False, this', [msg])
    \<and> message (last (status_list msg)) = ''ERROR''
    \<and> getStatusMsg this' = ''HIGH JOINT TEMPERATURE : J1''
    \<and> getStatusMsg this' \<noteq> message (last (status_list msg)))"
  by (simp add: run_defs)

text \<open>
  C10. The statistics start from fixed values and are folded with \<^verbatim>\<open>std::max\<close> and
  \<^verbatim>\<open>std::min\<close>. So in the aggregate status of every cycle that completes the highest
  temperature, stiffness and current are at least 0, the two lowest stiffnesses at most 1
  and the lowest current at most 10, whatever the values read (not-a-number and the
  infinities included). With no joint, a cycle whose read succeeds returns true and
  publishes one message that holds the aggregate status alone: level \<open>OK\<close>, the initial
  values as statistics and an empty text of hot joints.
\<close>

theorem aggregate_statistics_seeds:
  "(getListData (m_keys_tocheck this) = Inr vs
      \<and> 3 * length (m_joints_all_names this) \<le> length vs \<longrightarrow>
     (\<exists>r this' msg maxT maxS minS minSW maxC minC hot.
        publish sf getListData now this pub = Inr (r, this', pub @ [msg])
      \<and> key_values (last (status_list msg)) =
          [(''Highest Temperature'', FloatValue maxT),
           (''Highest Stiffness'', FloatValue maxS),
           (''Lowest Stiffness'', FloatValue minS),
           (''Lowest Stiffness without Hands'', FloatValue minSW),
           (''Highest Electric Current'', FloatValue maxC),
           (''Lowest Electric current'', FloatValue minC),
           (''Hot Joints'', StringValue hot)]
      \<and> float_ge maxT (Fin 0) \<and> float_ge maxS (Fin 0) \<and> float_ge maxC (Fin 0)
      \<and> float_le minS (Fin 1) \<and> float_le minSW (Fin 1) \<and> float_le minC (Fin 10)))
   \<and> (getListData (m_keys_tocheck (Diagnostics_new [] E)) = Inr vs0 \<longrightarrow>
       publish sf getListData now ((Diagnostics_new [] E)\<lparr>m_status := s\<rparr>) pub =
         Inr (True,
              (Diagnostics_new [] E)\<lparr>m_status := s\<lparr>level := OK, message := ''OK''\<rparr>\<rparr>,
              pub @ [\<lparr>stamp = now,
                      status_list =
                        [\<lparr>level = OK, name = ''naoqi_dcm_driver_joints:Status'', message = ''OK'',
                          hardware_id = ''joints'',
                          key_values =
                            [(''Highest Temperature'', FloatValue (Fin 0)),
                             (''Highest Stiffness'', FloatValue (Fin 0)),
                             (''Lowest Stiffness'', FloatValue (Fin 1)),
                             (''Lowest Stiffness without Hands'', FloatValue (Fin 1)),
                             (''Highest Electric Current'', FloatValue (Fin 0)),
                             (''Lowest Electric current'', FloatValue (Fin 10)),
                             (''Hot Joints'', StringValue [])]\<rparr>]\<rparr>]))"
proof (intro conjI impI)
  assume a: "getListData (m_keys_tocheck this) = Inr vs
      \<and> 3 * length (m_joints_all_names this) \<le> length vs"
  then have a1: "getListData (m_keys_tocheck this) = Inr vs"
    and a2: "3 * length (m_joints_all_names this) \<le> length vs" by simp_all
  from publish_cycle [where getListData = getListData and this = this and vs = vs and sf = sf
      and now = now and pub = pub, OF a1 a2] obtain l' where
    p: "publish sf getListData now this pub =
       Inr (\<not> ERROR \<le>s level (running l'), this\<lparr>m_status := running l'\<rparr>,
            pub @ [\<lparr>stamp = now, status_list = msg_status l' @ [aggregated_status l']\<rparr>])"
    and loop: "joints_loop sf (m_temperature_warn_level this) (m_temperature_error_level this) vs
       (m_joints_all_names this) (initial_locals (m_status this)) = Inr l'"
    by blast
  have z: "float_le (Fin 0) (Fin 0)" "float_le (Fin 1) (Fin 1)" "float_le (Fin 10) (Fin 10)"
    by (simp_all add: float_le_def)
  have b: "float_ge (maxTemperature l') (Fin 0)" "float_ge (maxStiffness l') (Fin 0)"
    "float_ge (maxCurrent l') (Fin 0)" "float_le (minStiffness l') (Fin 1)"
    "float_le (minStiffnessWoHands l') (Fin 1)" "float_le (minCurrent l') (Fin 10)"
    using joints_loop_bounds [OF loop] z unfolding float_ge_def
    by (simp_all add: initial_locals_fields)
  show "\<exists>r this' msg maxT maxS minS minSW maxC minC hot.
        publish sf getListData now this pub = Inr (r, this', pub @ [msg])
      \<and> key_values (last (status_list msg)) =
          [(''Highest Temperature'', FloatValue maxT),
           (''Highest Stiffness'', FloatValue maxS),
           (''Lowest Stiffness'', FloatValue minS),
           (''Lowest Stiffness without Hands'', FloatValue minSW),
           (''Highest Electric Current'', FloatValue maxC),
           (''Lowest Electric current'', FloatValue minC),
           (''Hot Joints'', StringValue hot)]
      \<and> float_ge maxT (Fin 0) \<and> float_ge maxS (Fin 0) \<and> float_ge maxC (Fin 0)
      \<and> float_le minS (Fin 1) \<and> float_le minSW (Fin 1) \<and> float_le minC (Fin 10)"
    apply (rule exI [of _ "\<not> ERROR \<le>s level (running l')"])
    apply (rule exI [of _ "this\<lparr>m_status := running l'\<rparr>"])
    apply (rule exI [of _ "\<lparr>stamp = now, status_list = msg_status l' @ [aggregated_status l']\<rparr>"])
    apply (rule exI [of _ "maxTemperature l'"])
    apply (rule exI [of _ "maxStiffness l'"])
    apply (rule exI [of _ "minStiffness l'"])
    apply (rule exI [of _ "minStiffnessWoHands l'"])
    apply (rule exI [of _ "maxCurrent l'"])
    apply (rule exI [of _ "minCurrent l'"])
    apply (rule exI [of _ "hotJointsSS l'"])
    using p b by (simp add: aggregated_status_fields)
next
  assume "getListData (m_keys_tocheck (Diagnostics_new [] E)) = Inr vs0"
  then show "publish sf getListData now ((Diagnostics_new [] E)\<lparr>m_status := s\<rparr>) pub =
         Inr (True,
              (Diagnostics_new [] E)\<lparr>m_status := s\<lparr>level := OK, message := ''OK''\<rparr>\<rparr>,
              pub @ [\<lparr>stamp = now,
                      status_list =
                        [\<lparr>level = OK, name = ''naoqi_dcm_driver_joints:Status'', message = ''OK'',
                          hardware_id = ''joints'',
                          key_values =
                            [(''Highest Temperature'', FloatValue (Fin 0)),
                             (''Highest Stiffness'', FloatValue (Fin 0)),
                             (''Lowest Stiffness'', FloatValue (Fin 1)),
                             (''Lowest Stiffness without Hands'', FloatValue (Fin 1)),
                             (''Highest Electric Current'', FloatValue (Fin 0)),
                             (''Lowest Electric current'', FloatValue (Fin 10)),
                             (''Hot Joints'', StringValue [])]\<rparr>]\<rparr>])"
    by (simp add: publish_def Diagnostics_new_def initial_locals_def aggregated_status_def
        setMessageFromStatus_def add_def new_status_def Let_def OK_def ERROR_def level_numerals)
qed

theorem aggregate_statistics_seeds_witness:
  "(\<lambda>keys. Inr [NaN, Fin (-3), PosInf, Fin 45, Fin 5, NegInf] :: string + float list)
      (m_keys_tocheck (Diagnostics_new [''LHand'', ''RShoulder''] (Fin 75)))
     = Inr [NaN, Fin (-3), PosInf, Fin 45, Fin 5, NegInf]
   \<and> 3 * length (m_joints_all_names (Diagnostics_new [''LHand'', ''RShoulder''] (Fin 75)))
       \<le> length [NaN, Fin (-3), PosInf, Fin 45, Fin 5, NegInf]
   \<and> (\<exists>r this' msg maxT maxS minS minSW maxC minC hot.
        publish (\<lambda>t. []) (\<lambda>keys. Inr [NaN, Fin (-3), PosInf, Fin 45, Fin 5, NegInf]) 7
          (Diagnostics_new [''LHand'', ''RShoulder''] (Fin 75)) [] = Inr (r, this', [] @ [msg])
      \<and> key_values (last (status_list msg)) =
          [(''Highest Temperature'', FloatValue maxT),
           (''Highest Stiffness'', FloatValue maxS),
           (''Lowest Stiffness'', FloatValue minS),
           (''Lowest Stiffness without Hands'', FloatValue minSW),
           (''Highest Electric Current'', FloatValue maxC),
           (''Lowest Electric current'', FloatValue minC),
           (''Hot Joints'', StringValue hot)]
      \<and> float_ge maxT (Fin 0) \<and> float_ge maxS (Fin 0) \<and> float_ge maxC (Fin 0)
      \<and> float_le minS (Fin 1) \<and> float_le minSW (Fin 1) \<and> float_le minC (Fin 10))
   \<and> (\<exists>this' msg.
        publish (\<lambda>t. []) (\<lambda>keys. Inr [NaN, Fin (-3), PosInf, Fin 45, Fin 5, NegInf]) 7
          (Diagnostics_new [''LHand'', ''RShoulder''] (Fin 75)) [] = Inr (False, this', [msg])
      \<and> key_values (last (status_list msg)) =
          [(''Highest Temperature'', FloatValue (Fin 45)),
           (''Highest Stiffness'', FloatValue (Fin 5)),
           (''Lowest Stiffness'', FloatValue (Fin (-3))),
           (''Lowest Stiffness without Hands'', FloatValue (Fin 1)),
           (''Highest Electric Current'', FloatValue PosInf),
           (''Lowest Electric current'', FloatValue NegInf),
           (''Hot Joints'', StringValue (endl @ ''LHand: '' @ degrees_C))])
   \<and> (\<lambda>keys. Inr [] :: string + float list) (m_keys_tocheck (Diagnostics_new [] (Fin 75))) = Inr []
   \<and> publish (\<lambda>t. []) (\<lambda>keys. Inr []) 7 ((Diagnostics_new [] (Fin 75))\<lparr>m_status := new_status\<rparr>) [] =
         Inr (True,
              (Diagnostics_new [] (Fin 75))\<lparr>m_status := new_status\<lparr>level := OK, message := ''OK''\<rparr>\<rparr>,
              [] @ [\<lparr>stamp = 7,
                      status_list =
                        [\<lparr>level = OK, name = ''naoqi_dcm_driver_joints:Status'', message = ''OK'',
                          hardware_id = ''joints'',
                          key_values =
                            [(''Highest Temperature'', FloatValue (Fin 0)),
                             (''Highest Stiffness'', FloatValue (Fin 0)),
                             (''Lowest Stiffness'', FloatValue (Fin 1)),
                             (''Lowest Stiffness without Hands'', FloatValue (Fin 1)),
                             (''Highest Electric Current'', FloatValue (Fin 0)),
                             (''Lowest Electric current'', FloatValue (Fin 10)),
                             (''Hot Joints'', StringValue [])]\<rparr>]\<rparr>])"
proof -
  note t = aggregate_statistics_seeds [where this = "Diagnostics_new [''LHand'', ''RShoulder''] (Fin 75)"
      and getListData = "\<lambda>keys. Inr [NaN, Fin (-3), PosInf, Fin 45, Fin 5, NegInf]"
      and vs = "[NaN, Fin (-3), PosInf, Fin 45, Fin 5, NegInf]"
      and sf = "\<lambda>t. []" and now = 7 and pub = "[]"]
  note u = aggregate_statistics_seeds [where getListData = "\<lambda>keys. Inr []" and vs0 = "[]"
      and E = "Fin 75" and s = new_status and sf = "\<lambda>t. []" and now = 7 and pub = "[]"]
  have h: "(\<lambda>keys. Inr [NaN, Fin (-3), PosInf, Fin 45, Fin 5, NegInf] :: string + float list)
      (m_keys_tocheck (Diagnostics_new [''LHand'', ''RShoulder''] (Fin 75)))
     = Inr [NaN, Fin (-3), PosInf, Fin 45, Fin 5, NegInf]"
   "3 * length (m_joints_all_names (Diagnostics_new [''LHand'', ''RShoulder''] (Fin 75)))
       \<le> length [NaN, Fin (-3), PosInf, Fin 45, Fin 5, NegInf]"
    by (simp_all add: Diagnostics_new_def)
  have h0: "(\<lambda>keys. Inr [] :: string + float list) (m_keys_tocheck (Diagnostics_new [] (Fin 75))) = Inr []"
    by simp
  note c1 = t [THEN conjunct1, THEN mp, OF conjI [OF h]]
  note c2 = u [THEN conjunct2, THEN mp, OF h0]
  have run: "\<exists>this' msg.
        publish (\<lambda>t. []) (\<lambda>keys. Inr [NaN, Fin (-3), PosInf, Fin 45, Fin 5, NegInf]) 7
          (Diagnostics_new [''LHand'', ''RShoulder''] (Fin 75)) [] = Inr (False, this', [msg])
      \<and> key_values (last (status_list msg)) =
          [(''Highest Temperature'', FloatValue (Fin 45)),
           (''Highest Stiffness'', FloatValue (Fin 5)),
           (''Lowest Stiffness'', FloatValue (Fin (-3))),
           (''Lowest Stiffness without Hands'', FloatValue (Fin 1)),
           (''Highest Electric Current'', FloatValue PosInf),
           (''Lowest Electric current'', FloatValue NegInf),
           (''Hot Joints'', StringValue (endl @ ''LHand: '' @ degrees_C))]"
    by (simp add: run_defs)
  show ?thesis
    by (intro conjI) (rule h h0 c1 c2 run)+
qed

end
